theory Spec2Isabelle
  imports Complex_Main
begin

section \<open>Numbers\<close>

text \<open>
  A JavaScript number is an IEEE 754 binary64 value. \<open>Finite s m e\<close> is the number
  \<open>(-1)\<^sup>s * m * 2\<^sup>e\<close>; a double has \<open>m < 2\<^sup>5\<^sup>3\<close> and \<open>-1074 \<le> e \<le> 971\<close>, with
  \<open>2\<^sup>5\<^sup>2 \<le> m\<close> unless \<open>e = -1074\<close> (the subnormal numbers and the two zeros), and every
  operation below returns its result in this form. The operations compute the exact
  result on the integers and round it once, to the nearest double and to the even one of
  two equally near (\<open>round_fin\<close>), as the standard defines them; a result of \<open>2\<^sup>1\<^sup>0\<^sup>2\<^sup>4\<close> or
  more is an infinity.
\<close>

datatype number = Finite bool nat int | Infinity bool | NaN

text \<open>The number of binary digits of \<open>n\<close>.\<close>

function bitlen :: "nat \<Rightarrow> nat" where
  "bitlen n = (if n = 0 then 0 else 1 + bitlen (n div 2))"
  by pat_completeness auto
termination
  by (relation "measure id") auto

declare bitlen.simps [simp del]

text \<open>
  \<open>pack s q e\<close> is the double \<open>q * 2\<^sup>e\<close> for a \<open>q\<close> of at most 53 digits, or \<open>2\<^sup>5\<^sup>3\<close> after
  rounding up: it moves \<open>2\<^sup>5\<^sup>3\<close> to the next exponent and overflows to an infinity.
\<close>

definition pack :: "bool \<Rightarrow> nat \<Rightarrow> int \<Rightarrow> number" where
  "pack s q e =
     (if q = 2 ^ 53 then (if 971 < e + 1 then Infinity s else Finite s (2 ^ 52) (e + 1))
      else if 971 < e then Infinity s else Finite s q e)"

text \<open>
  \<open>round_at s m e e'\<close> writes \<open>m * 2\<^sup>e\<close> with the exponent \<open>e'\<close>: exactly when \<open>e' \<le> e\<close>, and
  otherwise by dropping the last \<open>e' - e\<close> digits of \<open>m\<close> and rounding to nearest, ties to
  even.
\<close>

definition round_at :: "bool \<Rightarrow> nat \<Rightarrow> int \<Rightarrow> int \<Rightarrow> number" where
  "round_at s m e e' =
     (if e' \<le> e then pack s (m * 2 ^ nat (e - e')) e'
      else pack s
             (if 2 ^ (nat (e' - e) - 1) < m mod 2 ^ nat (e' - e)
                 \<or> (m mod 2 ^ nat (e' - e) = 2 ^ (nat (e' - e) - 1) \<and> odd (m div 2 ^ nat (e' - e)))
              then m div 2 ^ nat (e' - e) + 1 else m div 2 ^ nat (e' - e))
             e')"

text \<open>
  The double nearest to \<open>(-1)\<^sup>s * m * 2\<^sup>e\<close>, for any \<open>m\<close> and \<open>e\<close>: 53 digits are kept, or
  fewer where the exponent would fall below \<open>-1074\<close>.
\<close>

definition round_fin :: "bool \<Rightarrow> nat \<Rightarrow> int \<Rightarrow> number" where
  "round_fin s m e =
     (if m = 0 then Finite s 0 (- 1074)
      else round_at s m e (max (e + int (bitlen m) - 53) (- 1074)))"

definition signed :: "bool \<Rightarrow> nat \<Rightarrow> int" where
  "signed s m = (if s then - int m else int m)"

text \<open>An integer literal of the source.\<close>

definition Num :: "int \<Rightarrow> number" where
  "Num i = round_fin (i < 0) (nat \<bar>i\<bar>) 0"

instantiation number :: "{plus, minus, times, divide, uminus, ord}"
begin

fun uminus_number :: "number \<Rightarrow> number" where
  "uminus_number (Finite s m e) = Finite (\<not> s) m e"
| "uminus_number (Infinity s) = Infinity (\<not> s)"
| "uminus_number NaN = NaN"

text \<open>
  A sum with a zero is the other operand, and two zeros give \<open>-0\<close> only when both are
  \<open>-0\<close>. Otherwise the sum is taken exactly at the smaller exponent and rounded; an exact
  zero is \<open>+0\<close>.
\<close>

fun plus_number :: "number \<Rightarrow> number \<Rightarrow> number" where
  "plus_number (Finite s1 m1 e1) (Finite s2 m2 e2) =
     (if m1 = 0 \<and> m2 = 0 then Finite (s1 \<and> s2) 0 (- 1074)
      else if m1 = 0 then Finite s2 m2 e2
      else if m2 = 0 then Finite s1 m1 e1
      else if signed s1 m1 * 2 ^ nat (e1 - min e1 e2) + signed s2 m2 * 2 ^ nat (e2 - min e1 e2) = 0
        then Finite False 0 (- 1074)
      else round_fin
             (signed s1 m1 * 2 ^ nat (e1 - min e1 e2) + signed s2 m2 * 2 ^ nat (e2 - min e1 e2) < 0)
             (nat \<bar>signed s1 m1 * 2 ^ nat (e1 - min e1 e2) + signed s2 m2 * 2 ^ nat (e2 - min e1 e2)\<bar>)
             (min e1 e2))"
| "plus_number (Finite s1 m1 e1) (Infinity s2) = Infinity s2"
| "plus_number (Infinity s1) (Finite s2 m2 e2) = Infinity s1"
| "plus_number (Infinity s1) (Infinity s2) = (if s1 = s2 then Infinity s1 else NaN)"
| "plus_number _ _ = NaN"

definition minus_number :: "number \<Rightarrow> number \<Rightarrow> number" where
  "minus_number a b = a + (- b)"

fun times_number :: "number \<Rightarrow> number \<Rightarrow> number" where
  "times_number (Finite s1 m1 e1) (Finite s2 m2 e2) = round_fin (s1 \<noteq> s2) (m1 * m2) (e1 + e2)"
| "times_number (Finite s1 m1 e1) (Infinity s2) = (if m1 = 0 then NaN else Infinity (s1 \<noteq> s2))"
| "times_number (Infinity s1) (Finite s2 m2 e2) = (if m2 = 0 then NaN else Infinity (s1 \<noteq> s2))"
| "times_number (Infinity s1) (Infinity s2) = Infinity (s1 \<noteq> s2)"
| "times_number _ _ = NaN"

text \<open>
  The quotient of two mantissas, with \<open>k\<close> more digits so that it has at least 55: the
  integer quotient, and one more digit that says whether a remainder was left.
\<close>

definition quotient :: "bool \<Rightarrow> nat \<Rightarrow> nat \<Rightarrow> int \<Rightarrow> nat \<Rightarrow> number" where
  "quotient s m1 m2 e k =
     round_fin s (2 * ((m1 * 2 ^ k) div m2) + (if (m1 * 2 ^ k) mod m2 = 0 then 0 else 1))
               (e - int k - 1)"

fun divide_number :: "number \<Rightarrow> number \<Rightarrow> number" where
  "divide_number (Finite s1 m1 e1) (Finite s2 m2 e2) =
     (if m2 = 0 then (if m1 = 0 then NaN else Infinity (s1 \<noteq> s2))
      else if m1 = 0 then Finite (s1 \<noteq> s2) 0 (- 1074)
      else quotient (s1 \<noteq> s2) m1 m2 (e1 - e2) (bitlen m2 + 55 - bitlen m1))"
| "divide_number (Finite s1 m1 e1) (Infinity s2) = Finite (s1 \<noteq> s2) 0 (- 1074)"
| "divide_number (Infinity s1) (Finite s2 m2 e2) = Infinity (s1 \<noteq> s2)"
| "divide_number _ _ = NaN"

text \<open>Comparisons: the two zeros are equal, and every comparison with \<open>NaN\<close> is false.\<close>

fun less_number :: "number \<Rightarrow> number \<Rightarrow> bool" where
  "less_number (Finite s1 m1 e1) (Finite s2 m2 e2) =
     (signed s1 m1 * 2 ^ nat (e1 - min e1 e2) < signed s2 m2 * 2 ^ nat (e2 - min e1 e2))"
| "less_number (Finite s1 m1 e1) (Infinity s2) = (\<not> s2)"
| "less_number (Infinity s1) (Finite s2 m2 e2) = s1"
| "less_number (Infinity s1) (Infinity s2) = (s1 \<and> \<not> s2)"
| "less_number _ _ = False"

fun less_eq_number :: "number \<Rightarrow> number \<Rightarrow> bool" where
  "less_eq_number (Finite s1 m1 e1) (Finite s2 m2 e2) =
     (signed s1 m1 * 2 ^ nat (e1 - min e1 e2) \<le> signed s2 m2 * 2 ^ nat (e2 - min e1 e2))"
| "less_eq_number (Finite s1 m1 e1) (Infinity s2) = (\<not> s2)"
| "less_eq_number (Infinity s1) (Finite s2 m2 e2) = s1"
| "less_eq_number (Infinity s1) (Infinity s2) = (s1 \<or> \<not> s2)"
| "less_eq_number _ _ = False"

instance ..

end

instantiation number :: inverse
begin

definition inverse_number :: "number \<Rightarrow> number" where
  "inverse_number a = divide (Num 1) a"

instance ..

end

text \<open>
  \<open>Math.sqrt\<close>. \<open>isqrt\<close> is the integer part of the square root, found digit by digit from
  the top. The mantissa is extended by \<open>k\<close> zeros to 110 digits or more and to an even
  exponent, so that its integer root has 55 digits at least; one more digit says whether
  the root was exact.
\<close>

fun isqrt_aux :: "nat \<Rightarrow> nat \<Rightarrow> nat \<Rightarrow> nat" where
  "isqrt_aux 0 x r = r"
| "isqrt_aux (Suc b) x r =
     isqrt_aux b x (if (r + 2 ^ b) * (r + 2 ^ b) \<le> x then r + 2 ^ b else r)"

definition isqrt :: "nat \<Rightarrow> nat" where
  "isqrt x = isqrt_aux (bitlen x div 2 + 1) x 0"

definition root :: "nat \<Rightarrow> int \<Rightarrow> nat \<Rightarrow> number" where
  "root m e k =
     round_fin False
       (2 * isqrt (m * 2 ^ k) + (if isqrt (m * 2 ^ k) * isqrt (m * 2 ^ k) = m * 2 ^ k then 0 else 1))
       ((e - int k) div 2 - 1)"

fun Math_sqrt :: "number \<Rightarrow> number" where
  "Math_sqrt (Finite s m e) =
     (if m = 0 then Finite s m e
      else if s then NaN
      else root m e (if even (e - int (110 - bitlen m)) then 110 - bitlen m
                     else 110 - bitlen m + 1))"
| "Math_sqrt (Infinity s) = (if s then NaN else Infinity False)"
| "Math_sqrt NaN = NaN"

text \<open>Truthiness of a number (\<open>0\<close>, \<open>-0\<close> and \<open>NaN\<close> are falsy), and \<open>a || b\<close> on numbers.\<close>

fun truthy :: "number \<Rightarrow> bool" where
  "truthy (Finite s m e) = (m \<noteq> 0)"
| "truthy (Infinity s) = True"
| "truthy NaN = False"

definition or_else :: "number \<Rightarrow> number \<Rightarrow> number" where
  "or_else a b = (if truthy a then a else b)"

fun isFinite :: "number \<Rightarrow> bool" where
  "isFinite (Finite s m e) = True"
| "isFinite (Infinity s) = False"
| "isFinite NaN = False"

text \<open>A zero of either sign.\<close>

fun isZero :: "number \<Rightarrow> bool" where
  "isZero (Finite s m e) = (m = 0)"
| "isZero (Infinity s) = False"
| "isZero NaN = False"

text \<open>The real number a finite double stands for.\<close>

fun val :: "number \<Rightarrow> real" where
  "val (Finite s m e) =
     (if 0 \<le> e then real_of_int (signed s m) * 2 ^ nat e
      else real_of_int (signed s m) / 2 ^ nat (- e))"
| "val (Infinity s) = 0"
| "val NaN = 0"

section \<open>Vectors\<close>

text \<open>
  \<open>THREE.Vector3\<close>. The methods below are those of the three.js library that
  \<open>main.js\<close> calls; the library is a dependency of the repository, and each method is
  written here as the library implements it, with the receiver as first argument and the
  mutated receiver as result.
\<close>

datatype Vector3 = Vector3 (vx: number) (vy: number) (vz: number)

definition set_v :: "Vector3 \<Rightarrow> number \<Rightarrow> number \<Rightarrow> number \<Rightarrow> Vector3" where
  "set_v this a b c = Vector3 a b c"

definition copy :: "Vector3 \<Rightarrow> Vector3 \<Rightarrow> Vector3" where
  "copy this v = Vector3 (vx v) (vy v) (vz v)"

definition add :: "Vector3 \<Rightarrow> Vector3 \<Rightarrow> Vector3" where
  "add this v = Vector3 (vx this + vx v) (vy this + vy v) (vz this + vz v)"

definition sub :: "Vector3 \<Rightarrow> Vector3 \<Rightarrow> Vector3" where
  "sub this v = Vector3 (vx this - vx v) (vy this - vy v) (vz this - vz v)"

definition multiplyScalar :: "Vector3 \<Rightarrow> number \<Rightarrow> Vector3" where
  "multiplyScalar this s = Vector3 (vx this * s) (vy this * s) (vz this * s)"

definition divideScalar :: "Vector3 \<Rightarrow> number \<Rightarrow> Vector3" where
  "divideScalar this s = multiplyScalar this (Num 1 / s)"

definition lengthSq :: "Vector3 \<Rightarrow> number" where
  "lengthSq this = vx this * vx this + vy this * vy this + vz this * vz this"

definition length_v :: "Vector3 \<Rightarrow> number" where
  "length_v this = Math_sqrt (vx this * vx this + vy this * vy this + vz this * vz this)"

text \<open>\<open>normalize() { return this.divideScalar( this.length() || 1 ); }\<close>\<close>

definition normalize_divisor :: "Vector3 \<Rightarrow> number" where
  "normalize_divisor this = or_else (length_v this) (Num 1)"

definition normalize_v :: "Vector3 \<Rightarrow> Vector3" where
  "normalize_v this = divideScalar this (normalize_divisor this)"

definition crossVectors :: "Vector3 \<Rightarrow> Vector3 \<Rightarrow> Vector3 \<Rightarrow> Vector3" where
  "crossVectors this a b =
     Vector3 (vy a * vz b - vz a * vy b)
             (vz a * vx b - vx a * vz b)
             (vx a * vy b - vy a * vx b)"

definition isFinite_v :: "Vector3 \<Rightarrow> bool" where
  "isFinite_v v = (isFinite (vx v) \<and> isFinite (vy v) \<and> isFinite (vz v))"

definition isZero_v :: "Vector3 \<Rightarrow> bool" where
  "isZero_v v = (isZero (vx v) \<and> isZero (vy v) \<and> isZero (vz v))"

abbreviation zero_v :: Vector3 where
  "zero_v \<equiv> Vector3 (Num 0) (Num 0) (Num 0)"

section \<open>Scene objects and the module state\<close>

text \<open>
  Every scene object has a position (\<open>Object3D.position\<close>). A point light adds
  intensity, distance and colour; a marker sphere is a mesh with a material colour; the
  camera adds its up vector and its orientation, of which the program reads only the
  elements 8, 9 and 10 of the world matrix (through \<open>getWorldDirection\<close>). A colour is
  its hex value.
\<close>

record object3D =
  position :: Vector3

record pointLight = object3D +
  intensity :: number
  distance :: number
  color :: nat

record mesh = object3D +
  material_color :: nat

record perspectiveCamera = object3D +
  up :: Vector3
  matrixWorld_z :: Vector3

text \<open>
  A \<open>PointLightHelper\<close> draws at its light's world matrix, which it shares, so it has no
  position of its own; its \<open>update()\<close> copies the light's colour into the helper's
  material. The helper at index \<open>i\<close> was built for the light at index \<open>i\<close>.
\<close>

record pointLightHelper =
  helper_color :: nat

definition helper_update :: "pointLight \<Rightarrow> pointLightHelper \<Rightarrow> pointLightHelper" where
  "helper_update l h = h\<lparr>helper_color := color l\<rparr>"

record keyState =
  KeyW :: bool
  KeyA :: bool
  KeyS :: bool
  KeyD :: bool
  ArrowUp :: bool
  ArrowDown :: bool
  ArrowLeft :: bool
  ArrowRight :: bool
  PageUp :: bool
  PageDown :: bool

record state =
  camera :: perspectiveCamera
  controls_target :: Vector3
  lights :: "pointLight list"
  lightSpheres :: "mesh list"
  lightHelpers :: "pointLightHelper list"
  keys :: keyState
  params_activeLight :: int

datatype error = TypeError

text \<open>\<open>xs[k]\<close>: \<open>undefined\<close> (here \<open>None\<close>) outside the array.\<close>

definition index :: "'a list \<Rightarrow> int \<Rightarrow> 'a option" where
  "index xs k = (if 0 \<le> k \<and> k < int (length xs) then Some (xs ! nat k) else None)"

section \<open>Camera movement\<close>

text \<open>
  \<open>getWorldDirection(target)\<close> of a camera:
  \<open>target.set(-e[8], -e[9], -e[10]).normalize()\<close>, with \<open>e\<close> the elements of the world
  matrix.
\<close>

definition getWorldDirection :: "perspectiveCamera \<Rightarrow> Vector3 \<Rightarrow> Vector3" where
  "getWorldDirection cam target =
     normalize_v (set_v target (- vx (matrixWorld_z cam)) (- vy (matrixWorld_z cam))
                             (- vz (matrixWorld_z cam)))"

text \<open>
  The module's scratch vectors \<open>forward\<close>, \<open>right\<close> and \<open>moveDir\<close> are written before
  they are read in every call, so they are values of the call and not part of the state:
  \<open>set\<close> and \<open>crossVectors\<close> overwrite every component of their receiver, and \<open>zero_v\<close>
  stands for what the receiver held before (lemma \<open>getWorldDirection_receiver\<close>).
  \<open>forward_of\<close> is \<open>forward\<close> after lines 178 to 180, \<open>right_of\<close> is \<open>right\<close> after line
  182, \<open>moveDir_of\<close> is \<open>moveDir\<close> after lines 184 to 189.
\<close>

definition forward_of :: "perspectiveCamera \<Rightarrow> Vector3" where
  "forward_of cam =
     (let forward = getWorldDirection cam zero_v;
          forward = Vector3 (vx forward) (Num 0) (vz forward)
      in normalize_v forward)"

definition right_of :: "perspectiveCamera \<Rightarrow> Vector3" where
  "right_of cam = normalize_v (crossVectors zero_v (forward_of cam) (up cam))"

definition moveDir_of :: "keyState \<Rightarrow> Vector3 \<Rightarrow> Vector3 \<Rightarrow> Vector3" where
  "moveDir_of ks forward right =
     (let moveDir = set_v zero_v (Num 0) (Num 0) (Num 0);
          moveDir = (if KeyW ks then add moveDir forward else moveDir);
          moveDir = (if KeyS ks then sub moveDir forward else moveDir);
          moveDir = (if KeyA ks then sub moveDir right else moveDir);
          moveDir = (if KeyD ks then add moveDir right else moveDir)
      in moveDir)"

definition updateCameraMovement :: "number \<Rightarrow> state \<Rightarrow> state" where
  "updateCameraMovement delta st =
     (let speed = Num 5;
          forward = forward_of (camera st);
          right = right_of (camera st);
          moveDir = moveDir_of (keys st) forward right
      in if Num 0 < lengthSq moveDir then
           (let moveDir = multiplyScalar (normalize_v moveDir) (speed * delta)
            in st\<lparr>camera := (camera st)\<lparr>position := add (position (camera st)) moveDir\<rparr>,
                  controls_target := add (controls_target st) moveDir\<rparr>)
         else st)"

section \<open>Light movement and the synchronisation of the markers\<close>

text \<open>
  One pass of the loop body at lines 219 and 220. Reading a property of \<open>undefined\<close>
  throws a \<open>TypeError\<close>, which nothing in the program catches: the frame ends there, and
  the model keeps the error and no state.
\<close>

definition sync_body :: "nat \<Rightarrow> state \<Rightarrow> error + state" where
  "sync_body i st =
     (case index (lightSpheres st) (int i) of
        None \<Rightarrow> Inl TypeError
      | Some s \<Rightarrow>
         (case index (lights st) (int i) of
            None \<Rightarrow> Inl TypeError
          | Some l \<Rightarrow>
             (case index (lightHelpers st) (int i) of
                None \<Rightarrow> Inl TypeError
              | Some h \<Rightarrow>
                  Inr (st\<lparr>lightSpheres :=
                             (lightSpheres st)[i := s\<lparr>position := copy (position s) (position l)\<rparr>],
                          lightHelpers := (lightHelpers st)[i := helper_update l h]\<rparr>))))"

lemma sync_body_lights: "sync_body i st = Inr st' \<Longrightarrow> lights st' = lights st"
  by (auto simp: sync_body_def split: option.splits)

text \<open>The loop of lines 218 to 221, from index \<open>i\<close> on.\<close>

function sync_from :: "nat \<Rightarrow> state \<Rightarrow> error + state" where
  "sync_from i st =
     (if i < length (lights st) then
        (case sync_body i st of
           Inl e \<Rightarrow> Inl e
         | Inr st' \<Rightarrow> sync_from (Suc i) st')
      else Inr st)"
  by pat_completeness auto
termination
  by (relation "measure (\<lambda>(i, st). length (lights st) - i)")
     (auto dest: sync_body_lights)

declare sync_from.simps [simp del]

text \<open>
  Lines 210 to 215: the six keys, in the order of the source. \<open>params.activeLight\<close> is
  one of the integers the panel's selector offers, or any integer written into it.
\<close>

definition move_light :: "keyState \<Rightarrow> number \<Rightarrow> Vector3 \<Rightarrow> Vector3" where
  "move_light ks lightSpeed p =
     (let p = (if ArrowUp ks then Vector3 (vx p) (vy p) (vz p - lightSpeed) else p);
          p = (if ArrowDown ks then Vector3 (vx p) (vy p) (vz p + lightSpeed) else p);
          p = (if ArrowLeft ks then Vector3 (vx p - lightSpeed) (vy p) (vz p) else p);
          p = (if ArrowRight ks then Vector3 (vx p + lightSpeed) (vy p) (vz p) else p);
          p = (if PageUp ks then Vector3 (vx p) (vy p + lightSpeed) (vz p) else p);
          p = (if PageDown ks then Vector3 (vx p) (vy p - lightSpeed) (vz p) else p)
      in p)"

definition updateLightMovement :: "number \<Rightarrow> state \<Rightarrow> error + state" where
  "updateLightMovement delta st =
     (case index (lights st) (params_activeLight st) of
        None \<Rightarrow> Inr st
      | Some l \<Rightarrow>
         (let lightSpeed = Num 4 * delta;
              l' = l\<lparr>position := move_light (keys st) lightSpeed (position l)\<rparr>
          in sync_from 0 (st\<lparr>lights := (lights st)[nat (params_activeLight st) := l']\<rparr>)))"

text \<open>
  The two navigators of one frame (lines 284 to 287 of \<open>animate\<close>), with the clock's
  delta handed to both as it is. \<open>controls.update()\<close> and the render are not modelled.
\<close>

definition animate :: "number \<Rightarrow> state \<Rightarrow> error + state" where
  "animate delta st = updateLightMovement delta (updateCameraMovement delta st)"

text \<open>
  A light key held over several frames: the light navigator runs once per frame, with
  that frame's delta. \<open>total_time\<close> is the time the frames add up to.
\<close>

fun total_time :: "number list \<Rightarrow> number" where
  "total_time [] = Num 0"
| "total_time (d # ds) = d + total_time ds"

fun run_light :: "number list \<Rightarrow> state \<Rightarrow> error + state" where
  "run_light [] st = Inr st"
| "run_light (d # ds) st =
     (case updateLightMovement d st of
        Inl e \<Rightarrow> Inl e
      | Inr st' \<Rightarrow> run_light ds st')"

section \<open>The scene of the program\<close>

definition initialPositions :: "Vector3 list" where
  "initialPositions =
     [Vector3 (Num 0) (Num 3) (Num 0),
      Vector3 (Num 3) (Num 2) (Num 0),
      Vector3 (Num (- 3)) (Num 2) (Num 0),
      Vector3 (Num 0) (Num 2) (Num 3),
      Vector3 (Num 0) (Num 2) (Num (- 3))]"

definition new_light :: "Vector3 \<Rightarrow> pointLight" where
  "new_light p = \<lparr>position = p, intensity = Num 5 / Num 2, distance = Num 40, color = 0xffffff\<rparr>"

definition new_sphere :: "Vector3 \<Rightarrow> mesh" where
  "new_sphere p = \<lparr>position = p, material_color = 0xffffff\<rparr>"

text \<open>The constructor of \<open>PointLightHelper\<close> ends with a call of \<open>update()\<close>.\<close>

definition new_helper :: "pointLight \<Rightarrow> pointLightHelper" where
  "new_helper l = \<lparr>helper_color = color l\<rparr>"

definition no_keys :: keyState where
  "no_keys = \<lparr>KeyW = False, KeyA = False, KeyS = False, KeyD = False,
              ArrowUp = False, ArrowDown = False, ArrowLeft = False, ArrowRight = False,
              PageUp = False, PageDown = False\<rparr>"

text \<open>
  The state after the module's top level has run: camera at \<open>(5, 5, 10)\<close> with the
  default up vector, target \<open>(0, 1, 0)\<close>, five lights with their spheres and helpers,
  no key held, light 0 active. The orientation is a parameter.
\<close>

definition initial_state :: "Vector3 \<Rightarrow> state" where
  "initial_state z =
     \<lparr>camera = \<lparr>position = Vector3 (Num 5) (Num 5) (Num 10),
                 up = Vector3 (Num 0) (Num 1) (Num 0),
                 matrixWorld_z = z\<rparr>,
      controls_target = Vector3 (Num 0) (Num 1) (Num 0),
      lights = map new_light initialPositions,
      lightSpheres = map new_sphere initialPositions,
      lightHelpers = map new_helper (map new_light initialPositions),
      keys = no_keys,
      params_activeLight = 0\<rparr>"

definition all_keys :: keyState where
  "all_keys = \<lparr>KeyW = True, KeyA = True, KeyS = True, KeyD = True,
               ArrowUp = True, ArrowDown = True, ArrowLeft = True, ArrowRight = True,
               PageUp = True, PageDown = True\<rparr>"

text \<open>The camera looks along world \<open>-Z\<close> when its local \<open>+Z\<close> axis is world \<open>+Z\<close>.\<close>

definition facing_minus_z :: Vector3 where
  "facing_minus_z = Vector3 (Num 0) (Num 0) (Num 1)"

text \<open>The camera looks straight down; the forward key is held.\<close>

definition looking_down_state :: state where
  "looking_down_state =
     (initial_state (Vector3 (Num 0) (Num 1) (Num 0)))\<lparr>keys := no_keys\<lparr>KeyW := True\<rparr>\<rparr>"

text \<open>The forward key and the increase-X key of the light are held.\<close>

definition reversed_frame_state :: state where
  "reversed_frame_state =
     (initial_state facing_minus_z)\<lparr>keys := no_keys\<lparr>KeyW := True, ArrowRight := True\<rparr>\<rparr>"

text \<open>The forward key alone is held, the camera facing world \<open>-Z\<close>.\<close>

definition forward_state :: state where
  "forward_state = (initial_state facing_minus_z)\<lparr>keys := no_keys\<lparr>KeyW := True\<rparr>\<rparr>"

text \<open>The forward and the right key are held, the camera facing world \<open>-Z\<close>.\<close>

definition diagonal_state :: state where
  "diagonal_state = (initial_state facing_minus_z)\<lparr>keys := no_keys\<lparr>KeyW := True, KeyD := True\<rparr>\<rparr>"

text \<open>Light 2 is selected and its increase-X key is held.\<close>

definition light2_state :: state where
  "light2_state =
     (initial_state facing_minus_z)\<lparr>keys := no_keys\<lparr>ArrowRight := True\<rparr>, params_activeLight := 2\<rparr>"

section \<open>Invariants of the rig\<close>

text \<open>
  The loop of lines 78 to 96 pushes one light, one sphere and one helper per pass, and
  nothing changes the length of the three arrays afterwards.
\<close>

definition rig_ok :: "state \<Rightarrow> bool" where
  "rig_ok st = (length (lightSpheres st) = length (lights st) \<and>
                length (lightHelpers st) = length (lights st))"

text \<open>Every marker sphere is at its light, and every helper has its light's colour.\<close>

definition synced :: "state \<Rightarrow> bool" where
  "synced st = (\<forall>j < length (lights st).
      position (lightSpheres st ! j) = position (lights st ! j) \<and>
      helper_color (lightHelpers st ! j) = color (lights st ! j))"

text \<open>
  The scene after the parameter panel has set the X of the second light to 7: the panel
  writes into the light only, so the sphere is still where the light was. All keys are
  held.
\<close>

definition panel_moved_state :: state where
  "panel_moved_state =
     (initial_state facing_minus_z)
       \<lparr>lights := (map new_light initialPositions)[1 := new_light (Vector3 (Num 7) (Num 2) (Num 0))],
        keys := all_keys\<rparr>"

section \<open>Measures\<close>

text \<open>Every component is falsy: a zero of either sign, or \<open>NaN\<close>.\<close>

definition falsy_v :: "Vector3 \<Rightarrow> bool" where
  "falsy_v v = (\<not> truthy (vx v) \<and> \<not> truthy (vy v) \<and> \<not> truthy (vz v))"


section \<open>Lemmas\<close>

subsection \<open>Reading an array\<close>

lemma index_None: "k < 0 \<or> int (length xs) \<le> k \<Longrightarrow> index xs k = None"
  by (auto simp: index_def)

subsection \<open>The synchronisation loop\<close>

lemma copy_eq [simp]: "copy this v = v"
  by (simp add: copy_def)

lemma sync_body_Inr:
  assumes "i < length (lights st)" "rig_ok st"
  shows "sync_body i st =
     Inr (st\<lparr>lightSpheres := (lightSpheres st)[i := (lightSpheres st ! i)\<lparr>position := position (lights st ! i)\<rparr>],
             lightHelpers := (lightHelpers st)[i := helper_update (lights st ! i) (lightHelpers st ! i)]\<rparr>)"
  using assms by (simp add: sync_body_def rig_ok_def index_def)

lemma sync_body_rig_ok: "sync_body i st = Inr st' \<Longrightarrow> rig_ok st \<Longrightarrow> rig_ok st'"
  by (auto simp: sync_body_def rig_ok_def split: option.splits)

lemma sync_from_returns: "rig_ok st \<Longrightarrow> \<exists>st'. sync_from i st = Inr st'"
proof (induction i st rule: sync_from.induct)
  case (1 i st)
  show ?case
  proof (cases "i < length (lights st)")
    case True
    with "1.prems" obtain st1 where b: "sync_body i st = Inr st1"
      by (simp add: sync_body_Inr)
    with "1.prems" have "rig_ok st1" by (blast intro: sync_body_rig_ok)
    with "1.IH"[OF True b] obtain st' where "sync_from (Suc i) st1 = Inr st'" by blast
    with True b show ?thesis by (simp add: sync_from.simps[of i st])
  next
    case False
    then show ?thesis by (simp add: sync_from.simps[of i st])
  qed
qed

lemma sync_body_frame:
  "sync_body i st = Inr st' \<Longrightarrow>
     lights st' = lights st \<and> camera st' = camera st \<and> controls_target st' = controls_target st
     \<and> keys st' = keys st \<and> params_activeLight st' = params_activeLight st"
  by (auto simp: sync_body_def split: option.splits)

lemma sync_from_frame:
  "sync_from i st = Inr st' \<Longrightarrow>
     lights st' = lights st \<and> camera st' = camera st \<and> controls_target st' = controls_target st
     \<and> keys st' = keys st \<and> params_activeLight st' = params_activeLight st"
proof (induction i st rule: sync_from.induct)
  case (1 i st)
  show ?case
  proof (cases "i < length (lights st)")
    case True
    with "1.prems" obtain st1 where b: "sync_body i st = Inr st1" and r: "sync_from (Suc i) st1 = Inr st'"
      by (auto simp: sync_from.simps[of i st] split: sum.splits)
    from "1.IH"[OF True b r] sync_body_frame[OF b] show ?thesis by simp
  next
    case False
    with "1.prems" show ?thesis by (simp add: sync_from.simps[of i st])
  qed
qed

lemma sync_from_spheres:
  "sync_from i st = Inr st' \<Longrightarrow>
     length (lightSpheres st') = length (lightSpheres st) \<and>
     (\<forall>j. i \<le> j \<and> j < length (lights st) \<longrightarrow>
          position (lightSpheres st' ! j) = position (lights st ! j)) \<and>
     (\<forall>j. j < i \<longrightarrow> lightSpheres st' ! j = lightSpheres st ! j)"
proof (induction i st rule: sync_from.induct)
  case (1 i st)
  show ?case
  proof (cases "i < length (lights st)")
    case True
    with "1.prems" obtain st1 where b: "sync_body i st = Inr st1" and r: "sync_from (Suc i) st1 = Inr st'"
      by (auto simp: sync_from.simps[of i st] split: sum.splits)
    note ih = "1.IH"[OF True b r]
    from b have l1: "lights st1 = lights st" by (rule sync_body_lights)
    from b have len: "i < length (lightSpheres st)"
      by (auto simp: sync_body_def index_def split: option.splits if_splits)
    from b have s1: "lightSpheres st1 = (lightSpheres st)[i := (lightSpheres st ! i)\<lparr>position := position (lights st ! i)\<rparr>]"
      by (auto simp: sync_body_def index_def split: option.splits if_splits)
    have a: "length (lightSpheres st') = length (lightSpheres st)" using ih s1 by simp
    have c: "lightSpheres st' ! j = lightSpheres st ! j" if "j < i" for j
      using ih that s1 by simp
    have d: "position (lightSpheres st' ! j) = position (lights st ! j)" if "i \<le> j" "j < length (lights st)" for j
    proof (cases "j = i")
      case True
      then have "lightSpheres st' ! j = lightSpheres st1 ! i" using ih by simp
      then show ?thesis using s1 len True by simp
    next
      case False
      with that have "Suc i \<le> j" by simp
      with ih that l1 show ?thesis by simp
    qed
    from a c d show ?thesis by blast
  next
    case False
    with "1.prems" show ?thesis by (auto simp: sync_from.simps[of i st])
  qed
qed

lemma sync_body_id:
  assumes "i < length (lights st)" "rig_ok st" "synced st"
  shows "sync_body i st = Inr st"
proof -
  from assms have p: "position (lights st ! i) = position (lightSpheres st ! i)"
    and c: "color (lights st ! i) = helper_color (lightHelpers st ! i)"
    by (simp_all add: synced_def)
  show ?thesis using assms(1,2)
    by (simp add: sync_body_Inr helper_update_def p c)
qed

lemma sync_from_id: "rig_ok st \<Longrightarrow> synced st \<Longrightarrow> sync_from i st = Inr st"
proof (induction i st rule: sync_from.induct)
  case (1 i st)
  show ?case
  proof (cases "i < length (lights st)")
    case True
    with "1.prems" have b: "sync_body i st = Inr st" by (simp add: sync_body_id)
    from "1.IH"[OF True b] "1.prems" True b show ?thesis
      by (simp add: sync_from.simps[of i st])
  next
    case False
    then show ?thesis by (simp add: sync_from.simps[of i st])
  qed
qed

lemma sync_from_helpers:
  "sync_from i st = Inr st' \<Longrightarrow>
     length (lightHelpers st') = length (lightHelpers st) \<and>
     (\<forall>j. i \<le> j \<and> j < length (lights st) \<longrightarrow>
          helper_color (lightHelpers st' ! j) = color (lights st ! j)) \<and>
     (\<forall>j. j < i \<longrightarrow> lightHelpers st' ! j = lightHelpers st ! j)"
proof (induction i st rule: sync_from.induct)
  case (1 i st)
  show ?case
  proof (cases "i < length (lights st)")
    case True
    with "1.prems" obtain st1 where b: "sync_body i st = Inr st1" and r: "sync_from (Suc i) st1 = Inr st'"
      by (auto simp: sync_from.simps[of i st] split: sum.splits)
    note ih = "1.IH"[OF True b r]
    from b have l1: "lights st1 = lights st" by (rule sync_body_lights)
    from b have len: "i < length (lightHelpers st)"
      by (auto simp: sync_body_def index_def split: option.splits if_splits)
    from b have s1: "lightHelpers st1 = (lightHelpers st)[i := helper_update (lights st ! i) (lightHelpers st ! i)]"
      by (auto simp: sync_body_def index_def split: option.splits if_splits)
    have a: "length (lightHelpers st') = length (lightHelpers st)" using ih s1 by simp
    have c: "lightHelpers st' ! j = lightHelpers st ! j" if "j < i" for j
      using ih that s1 by simp
    have d: "helper_color (lightHelpers st' ! j) = color (lights st ! j)" if "i \<le> j" "j < length (lights st)" for j
    proof (cases "j = i")
      case True
      then have "lightHelpers st' ! j = lightHelpers st1 ! i" using ih by simp
      then show ?thesis using s1 len True by (simp add: helper_update_def)
    next
      case False
      with that have "Suc i \<le> j" by simp
      with ih that l1 show ?thesis by simp
    qed
    from a c d show ?thesis by blast
  next
    case False
    with "1.prems" show ?thesis by (auto simp: sync_from.simps[of i st])
  qed
qed

lemma sync_loop:
  assumes "rig_ok st"
  shows "\<exists>st'. sync_from 0 st = Inr st' \<and> lights st' = lights st \<and> camera st' = camera st
     \<and> controls_target st' = controls_target st \<and> keys st' = keys st
     \<and> params_activeLight st' = params_activeLight st \<and> rig_ok st' \<and> synced st'"
proof -
  from sync_from_returns[OF assms] obtain st' where r: "sync_from 0 st = Inr st'" by blast
  note f = sync_from_frame[OF r] and s = sync_from_spheres[OF r] and h = sync_from_helpers[OF r]
  have "rig_ok st'" using assms f s h by (simp add: rig_ok_def)
  moreover have "synced st'" using f s h by (simp add: synced_def)
  ultimately show ?thesis using r f by simp
qed

lemma light_step:
  assumes "rig_ok st" "params_activeLight st = int k" "k < length (lights st)"
  shows "\<exists>st'. updateLightMovement delta st = Inr st'
     \<and> lights st' = (lights st)[k := (lights st ! k)\<lparr>position :=
            move_light (keys st) (Num 4 * delta) (position (lights st ! k))\<rparr>]
     \<and> camera st' = camera st \<and> controls_target st' = controls_target st \<and> keys st' = keys st
     \<and> params_activeLight st' = params_activeLight st \<and> rig_ok st' \<and> synced st'"
proof -
  let ?st1 = "st\<lparr>lights := (lights st)[k := (lights st ! k)\<lparr>position :=
            move_light (keys st) (Num 4 * delta) (position (lights st ! k))\<rparr>]\<rparr>"
  have u: "updateLightMovement delta st = sync_from 0 ?st1"
    using assms by (simp add: updateLightMovement_def index_def Let_def)
  have "rig_ok ?st1" using assms(1) by (simp add: rig_ok_def)
  from sync_loop[OF this] u show ?thesis by auto
qed

subsection \<open>What the camera step leaves alone\<close>

lemma updateCameraMovement_frame:
  "lights (updateCameraMovement delta st) = lights st \<and>
   lightSpheres (updateCameraMovement delta st) = lightSpheres st \<and>
   lightHelpers (updateCameraMovement delta st) = lightHelpers st \<and>
   keys (updateCameraMovement delta st) = keys st \<and>
   params_activeLight (updateCameraMovement delta st) = params_activeLight st"
  by (simp add: updateCameraMovement_def Let_def)

subsection \<open>The scene after a panel edit\<close>

lemma rig_ok_panel: "rig_ok panel_moved_state"
  by (simp add: rig_ok_def panel_moved_state_def initial_state_def initialPositions_def)

lemma len_panel: "length (lights panel_moved_state) = 5"
  by (simp add: panel_moved_state_def initial_state_def initialPositions_def)

lemma act_panel: "params_activeLight panel_moved_state = 0"
  by (simp add: panel_moved_state_def initial_state_def)

lemma lights_panel:
  "lights panel_moved_state ! 0 = new_light (Vector3 (Num 0) (Num 3) (Num 0))"
  "lights panel_moved_state ! Suc 0 = new_light (Vector3 (Num 7) (Num 2) (Num 0))"
  "lights panel_moved_state ! 4 = new_light (Vector3 (Num 0) (Num 2) (Num (- 3)))"
  by (simp_all add: panel_moved_state_def initial_state_def initialPositions_def)

subsection \<open>The scratch vectors\<close>

lemma getWorldDirection_receiver: "getWorldDirection cam target = getWorldDirection cam zero_v"
  by (simp add: getWorldDirection_def set_v_def)

lemma crossVectors_receiver: "crossVectors this a b = crossVectors zero_v a b"
  by (simp add: crossVectors_def)

subsection \<open>Evaluating the arithmetic on numerals\<close>

lemma bitlen_0: "bitlen 0 = 0"
  by (simp add: bitlen.simps)

lemma bitlen_1: "bitlen 1 = 1" "bitlen (Suc 0) = 1"
  by (simp_all add: bitlen.simps [of "Suc 0"] bitlen_0)

lemma bitlen_numeral: "bitlen (numeral n) = 1 + bitlen (numeral n div 2)"
  by (simp add: bitlen.simps [of "numeral n"])

lemma isqrt_aux_numeral:
  "isqrt_aux (numeral n) x r =
     isqrt_aux (pred_numeral n) x
       (if (r + 2 ^ pred_numeral n) * (r + 2 ^ pred_numeral n) \<le> x then r + 2 ^ pred_numeral n else r)"
  by (simp add: numeral_eq_Suc)

lemma isqrt_aux_1: "isqrt_aux 1 x r = (if (r + 1) * (r + 1) \<le> x then r + 1 else r)"
  by simp

lemmas eval_number = Num_def round_fin_def round_at_def pack_def quotient_def root_def
  signed_def isqrt_def minus_number_def bitlen_0 bitlen_1 bitlen_numeral isqrt_aux_numeral isqrt_aux_1

lemma Num_0: "Num 0 = Finite False 0 (- 1074)"
  by (simp add: Num_def round_fin_def)

lemma Num_1: "Num 1 = Finite False 4503599627370496 (- 52)"
  by (simp add: eval_number)

lemma one_div_one: "Num 1 / Num 1 = Num 1"
  by (simp add: eval_number)

subsection \<open>Zeros\<close>

lemma isZero_Num_0 [simp]: "isZero (Num 0)"
  by (simp add: Num_0)

lemma isZero_uminus [simp]: "isZero (- a) = isZero a"
  by (cases a) simp_all

lemma isZero_times: "isZero a \<Longrightarrow> isFinite b \<Longrightarrow> isZero (a * b)"
  by (cases a; cases b) (simp_all add: round_fin_def)

lemma isZero_times_zero: "isZero a \<Longrightarrow> isZero b \<Longrightarrow> isZero (a * b)"
  by (cases a; cases b) (simp_all add: round_fin_def)

lemma isZero_plus: "isZero a \<Longrightarrow> isZero b \<Longrightarrow> isZero (a + b)"
  by (cases a; cases b) simp_all

lemma isZero_minus: "isZero a \<Longrightarrow> isZero b \<Longrightarrow> isZero (a - b)"
  by (simp add: minus_number_def isZero_plus)

lemma Num_0_plus: "isZero a \<Longrightarrow> Num 0 + a = Num 0"
  by (cases a) (simp_all add: Num_0)

lemma Num_0_minus: "isZero a \<Longrightarrow> Num 0 - a = Num 0"
  by (cases a) (simp_all add: Num_0 minus_number_def)

lemma sqrt_zero: "isZero a \<Longrightarrow> Math_sqrt a = a"
  by (cases a) simp_all

lemma isZero_not_truthy: "isZero a \<Longrightarrow> \<not> truthy a"
  by (cases a) simp_all

subsection \<open>Falsy numbers: the zeros and NaN\<close>

lemma falsy_iff: "\<not> truthy a \<longleftrightarrow> isZero a \<or> a = NaN"
  by (cases a) simp_all

lemma plus_NaN [simp]: "a + NaN = NaN"
  by (cases a) simp_all

lemma NaN_plus [simp]: "NaN + a = NaN"
  by simp

lemma minus_NaN [simp]: "a - NaN = NaN"
  by (simp add: minus_number_def)

lemma NaN_minus [simp]: "NaN - a = NaN"
  by (simp add: minus_number_def)

lemma times_NaN [simp]: "a * NaN = NaN"
  by (cases a) simp_all

lemma NaN_times [simp]: "NaN * a = NaN"
  by simp

lemma falsy_times: "\<not> truthy a \<Longrightarrow> \<not> truthy b \<Longrightarrow> \<not> truthy (a * b)"
  by (cases a; cases b) (simp_all add: round_fin_def)

lemma falsy_plus: "\<not> truthy a \<Longrightarrow> \<not> truthy b \<Longrightarrow> \<not> truthy (a + b)"
  by (cases a; cases b) simp_all

lemma falsy_not_pos: "\<not> truthy a \<Longrightarrow> \<not> Num 0 < a"
  by (cases a) (simp_all add: Num_0 signed_def)

lemma self_cancel: "\<not> truthy (f - f)"
  by (cases f) (simp_all add: minus_number_def signed_def)

lemma falsy_add_sub: "\<not> truthy z \<Longrightarrow> \<not> truthy ((z + f) - f)"
  by (cases z; cases f) (auto simp: minus_number_def signed_def)

lemma falsy_sub_add: "\<not> truthy z \<Longrightarrow> \<not> truthy ((z - r) + r)"
  by (cases z; cases r) (auto simp: minus_number_def signed_def)

subsection \<open>Changing a sign\<close>

lemma uminus_uminus [simp]: "- (- a) = (a::number)"
  by (cases a) simp_all

lemma uminus_pack: "- pack s q e = pack (\<not> s) q e"
  by (simp add: pack_def)

lemma uminus_round_fin: "- round_fin s m e = round_fin (\<not> s) m e"
  by (simp add: round_fin_def round_at_def uminus_pack)

lemma times_uminus: "a * (- b) = - (a * (b::number))"
  by (cases a; cases b) (auto simp: uminus_round_fin)

lemma minus_uminus: "a - (- b) = a + (b::number)"
  by (simp add: minus_number_def)

lemma plus_uminus: "a + (- b) = a - (b::number)"
  by (simp add: minus_number_def)

subsection \<open>Vectors of zeros and of falsy numbers\<close>

lemma falsy_uminus [simp]: "truthy (- a) = truthy a"
  by (cases a) simp_all

lemma falsy_minus: "\<not> truthy a \<Longrightarrow> \<not> truthy b \<Longrightarrow> \<not> truthy (a - b)"
  by (simp add: minus_number_def falsy_plus)

lemma falsy_sqrt: "\<not> truthy a \<Longrightarrow> \<not> truthy (Math_sqrt a)"
  by (cases a) simp_all

lemma falsy_times_any: "isZero a \<Longrightarrow> \<not> truthy (a * b)"
  by (cases a; cases b) (simp_all add: round_fin_def)

lemma falsy_times_one: "\<not> truthy a \<Longrightarrow> \<not> truthy (a * Num 1)"
  by (cases a) (simp_all add: Num_1 round_fin_def)

lemma isZero_v_falsy: "isZero_v v \<Longrightarrow> falsy_v v"
  by (simp add: isZero_v_def falsy_v_def isZero_not_truthy)

lemma lengthSq_falsy: "falsy_v v \<Longrightarrow> \<not> truthy (lengthSq v)"
  by (simp add: falsy_v_def lengthSq_def falsy_times falsy_plus)

lemma length_v_falsy: "falsy_v v \<Longrightarrow> \<not> truthy (length_v v)"
  by (simp add: falsy_v_def length_v_def falsy_times falsy_plus falsy_sqrt)

lemma normalize_divisor_falsy: "falsy_v v \<Longrightarrow> normalize_divisor v = Num 1"
  by (simp add: normalize_divisor_def or_else_def length_v_falsy)

lemma normalize_falsy: "falsy_v v \<Longrightarrow> falsy_v (normalize_v v)"
  by (simp add: normalize_v_def normalize_divisor_falsy divideScalar_def multiplyScalar_def
      one_div_one)
     (simp add: falsy_v_def falsy_times_one)

lemma normalize_zero: "isZero_v v \<Longrightarrow> isZero_v (normalize_v v)"
  by (simp add: normalize_v_def normalize_divisor_falsy isZero_v_falsy divideScalar_def
      multiplyScalar_def one_div_one)
     (simp add: isZero_v_def isZero_times Num_1)

subsection \<open>A camera step that moves nothing\<close>

lemma no_step:
  assumes "\<not> truthy (lengthSq (moveDir_of (keys st) (forward_of (camera st)) (right_of (camera st))))"
  shows "updateCameraMovement delta st = st"
  using falsy_not_pos [OF assms] by (simp add: updateCameraMovement_def)

lemma moveDir_cancel:
  assumes "KeyW ks = KeyS ks" "KeyA ks = KeyD ks"
  shows "falsy_v (moveDir_of ks f r)"
proof -
  have z: "\<not> truthy (Num 0)" by (simp add: Num_0)
  have a: "\<not> truthy ((Num 0 + a) - a)" for a by (rule falsy_add_sub [OF z])
  have b: "\<not> truthy ((Num 0 - b) + b)" for b by (rule falsy_sub_add [OF z])
  have c: "\<not> truthy (((Num 0 + a) - a - b) + b)" for a b by (rule falsy_sub_add [OF a])
  show ?thesis
    using assms z a b c
    by (cases "KeyS ks"; cases "KeyD ks")
       (simp_all add: moveDir_of_def falsy_v_def set_v_def add_def sub_def)
qed

lemma keys_cancel_no_step:
  assumes "KeyW (keys st) = KeyS (keys st)" "KeyA (keys st) = KeyD (keys st)"
  shows "updateCameraMovement delta st = st"
  by (rule no_step) (rule lengthSq_falsy, rule moveDir_cancel [OF assms])

subsection \<open>A camera looking straight up or down\<close>

lemma forward_degenerate:
  assumes "isZero (vx (getWorldDirection cam zero_v))" "isZero (vz (getWorldDirection cam zero_v))"
  shows "isZero_v (forward_of cam)"
  unfolding forward_of_def Let_def
  by (rule normalize_zero) (simp add: isZero_v_def assms)

lemma right_degenerate:
  assumes "isZero_v (forward_of cam)" "isFinite_v (up cam)"
  shows "isZero_v (right_of cam)"
  unfolding right_of_def
  by (rule normalize_zero)
     (use assms in \<open>simp add: isZero_v_def isFinite_v_def crossVectors_def isZero_times isZero_minus\<close>)

lemma right_degenerate_falsy:
  assumes "isZero_v (forward_of cam)"
  shows "falsy_v (right_of cam)"
  unfolding right_of_def
  by (rule normalize_falsy)
     (use assms in \<open>simp add: isZero_v_def falsy_v_def crossVectors_def falsy_times_any falsy_minus\<close>)

lemma moveDir_zero:
  assumes "isZero_v f" "isZero_v r"
  shows "moveDir_of ks f r = zero_v"
  using assms
  by (simp add: moveDir_of_def Let_def isZero_v_def set_v_def add_def sub_def Num_0_plus Num_0_minus)

lemma moveDir_falsy:
  assumes "isZero_v f" "falsy_v r"
  shows "falsy_v (moveDir_of ks f r)"
proof -
  have z: "\<not> truthy (Num 0)" by (simp add: Num_0)
  show ?thesis
    using assms z
    by (simp add: moveDir_of_def Let_def isZero_v_def falsy_v_def set_v_def add_def sub_def
        Num_0_plus Num_0_minus falsy_plus falsy_minus)
qed

lemma degenerate_no_step:
  assumes "isZero (vx (getWorldDirection (camera st) zero_v))"
    and "isZero (vz (getWorldDirection (camera st) zero_v))"
  shows "updateCameraMovement delta st = st"
proof -
  have f: "isZero_v (forward_of (camera st))" using assms by (rule forward_degenerate)
  show ?thesis
    by (rule no_step, rule lengthSq_falsy, rule moveDir_falsy [OF f right_degenerate_falsy [OF f]])
qed

subsection \<open>The camera facing world -Z\<close>

lemmas eval_vector = set_v_def add_def sub_def multiplyScalar_def divideScalar_def lengthSq_def
  length_v_def normalize_divisor_def normalize_v_def crossVectors_def or_else_def

lemma getWorldDirection_facing:
  "matrixWorld_z cam = facing_minus_z \<Longrightarrow>
     getWorldDirection cam zero_v = Vector3 (- Num 0) (- Num 0) (Num (- 1))"
  by (simp add: getWorldDirection_def facing_minus_z_def eval_vector eval_number)

lemma forward_facing:
  "matrixWorld_z cam = facing_minus_z \<Longrightarrow> forward_of cam = Vector3 (- Num 0) (Num 0) (Num (- 1))"
  by (simp add: forward_of_def getWorldDirection_facing) (simp add: eval_vector eval_number)

lemma right_facing:
  "matrixWorld_z cam = facing_minus_z \<Longrightarrow> up cam = Vector3 (Num 0) (Num 1) (Num 0) \<Longrightarrow>
     right_of cam = Vector3 (Num 1) (Num 0) (- Num 0)"
  by (simp add: right_of_def forward_facing) (simp add: eval_vector eval_number)

lemma normalize_minus_z:
  "normalize_v (Vector3 (Num 0) (Num 0) (Num (- 1))) = Vector3 (Num 0) (Num 0) (Num (- 1))"
  by (simp add: eval_vector eval_number)

lemma normalize_diagonal:
  "normalize_v (Vector3 (Num 1) (Num 0) (Num (- 1))) =
     Vector3 (Finite False 6369051672525772 (- 53)) (Num 0) (Finite True 6369051672525772 (- 53))"
  by (simp add: eval_vector eval_number)

subsection \<open>Camera steps\<close>

lemma camera_step:
  assumes "Num 0 < lengthSq (moveDir_of (keys st) (forward_of (camera st)) (right_of (camera st)))"
  shows "updateCameraMovement delta st =
     st\<lparr>camera := (camera st)\<lparr>position := add (position (camera st))
              (multiplyScalar (normalize_v (moveDir_of (keys st) (forward_of (camera st)) (right_of (camera st))))
                 (Num 5 * delta))\<rparr>,
        controls_target := add (controls_target st)
              (multiplyScalar (normalize_v (moveDir_of (keys st) (forward_of (camera st)) (right_of (camera st))))
                 (Num 5 * delta))\<rparr>"
  using assms by (simp add: updateCameraMovement_def Let_def)

lemma add_scaled_uminus:
  "add p (multiplyScalar n (Num 5 * (- d))) = sub p (multiplyScalar n (Num 5 * d))"
  by (simp add: add_def sub_def multiplyScalar_def times_uminus plus_uminus)

lemma camera_step_back:
  assumes "Num 0 < lengthSq (moveDir_of (keys st) (forward_of (camera st)) (right_of (camera st)))"
  shows "updateCameraMovement (- delta) st =
     st\<lparr>camera := (camera st)\<lparr>position := sub (position (camera st))
              (multiplyScalar (normalize_v (moveDir_of (keys st) (forward_of (camera st)) (right_of (camera st))))
                 (Num 5 * delta))\<rparr>,
        controls_target := sub (controls_target st)
              (multiplyScalar (normalize_v (moveDir_of (keys st) (forward_of (camera st)) (right_of (camera st))))
                 (Num 5 * delta))\<rparr>"
  by (simp add: camera_step [OF assms] add_scaled_uminus)

lemma camera_step_NaN:
  assumes "Num 0 < lengthSq (moveDir_of (keys st) (forward_of (camera st)) (right_of (camera st)))"
  shows "updateCameraMovement NaN st =
     st\<lparr>camera := (camera st)\<lparr>position := Vector3 NaN NaN NaN\<rparr>,
        controls_target := Vector3 NaN NaN NaN\<rparr>"
  by (simp add: camera_step [OF assms] add_def multiplyScalar_def)

lemma updateCameraMovement_shape:
  "updateCameraMovement delta st = st \<or>
   (\<exists>m. updateCameraMovement delta st =
      st\<lparr>camera := (camera st)\<lparr>position := add (position (camera st)) m\<rparr>,
         controls_target := add (controls_target st) m\<rparr>)"
  by (auto simp: updateCameraMovement_def Let_def)

lemma moveDir_forward_only:
  assumes "matrixWorld_z cam = facing_minus_z" "KeyW ks" "\<not> KeyS ks" "\<not> KeyA ks" "\<not> KeyD ks"
  shows "moveDir_of ks (forward_of cam) (right_of cam) = Vector3 (Num 0) (Num 0) (Num (- 1))"
  using assms(2-5)
  by (simp add: moveDir_of_def forward_facing [OF assms(1)]) (simp add: eval_vector eval_number)

lemma lengthSq_minus_z: "Num 0 < lengthSq (Vector3 (Num 0) (Num 0) (Num (- 1)))"
  by (simp add: eval_vector eval_number)

lemma forward_only_step:
  assumes "matrixWorld_z (camera st) = facing_minus_z"
    and "KeyW (keys st)" "\<not> KeyS (keys st)" "\<not> KeyA (keys st)" "\<not> KeyD (keys st)"
  shows "updateCameraMovement delta st =
     st\<lparr>camera := (camera st)\<lparr>position := add (position (camera st))
              (multiplyScalar (Vector3 (Num 0) (Num 0) (Num (- 1))) (Num 5 * delta))\<rparr>,
        controls_target := add (controls_target st)
              (multiplyScalar (Vector3 (Num 0) (Num 0) (Num (- 1))) (Num 5 * delta))\<rparr>"
proof -
  note m = moveDir_forward_only [OF assms]
  have "Num 0 < lengthSq (moveDir_of (keys st) (forward_of (camera st)) (right_of (camera st)))"
    by (simp only: m lengthSq_minus_z)
  from camera_step [OF this] show ?thesis by (simp only: m normalize_minus_z)
qed

lemma scaled_minus_z_two:
  "multiplyScalar (Vector3 (Num 0) (Num 0) (Num (- 1))) (Num 5 * Num 2) = Vector3 (Num 0) (Num 0) (Num (- 10))"
  by (simp add: eval_vector eval_number)

lemma moveDir_diagonal:
  "moveDir_of (keys diagonal_state) (forward_of (camera diagonal_state)) (right_of (camera diagonal_state))
     = Vector3 (Num 1) (Num 0) (Num (- 1))"
proof -
  have z: "matrixWorld_z (camera diagonal_state) = facing_minus_z"
    "up (camera diagonal_state) = Vector3 (Num 0) (Num 1) (Num 0)"
    by (simp_all add: diagonal_state_def initial_state_def)
  show ?thesis
    by (simp add: moveDir_of_def forward_facing [OF z(1)] right_facing [OF z])
       (simp add: diagonal_state_def no_keys_def eval_vector eval_number)
qed

lemma lengthSq_diagonal: "Num 0 < lengthSq (Vector3 (Num 1) (Num 0) (Num (- 1)))"
  by (simp add: eval_vector eval_number)

lemma diagonal_step:
  "updateCameraMovement delta diagonal_state =
     diagonal_state\<lparr>camera := (camera diagonal_state)\<lparr>position := add (Vector3 (Num 5) (Num 5) (Num 10))
          (multiplyScalar (Vector3 (Finite False 6369051672525772 (- 53)) (Num 0) (Finite True 6369051672525772 (- 53)))
             (Num 5 * delta))\<rparr>,
        controls_target := add (Vector3 (Num 0) (Num 1) (Num 0))
          (multiplyScalar (Vector3 (Finite False 6369051672525772 (- 53)) (Num 0) (Finite True 6369051672525772 (- 53)))
             (Num 5 * delta))\<rparr>"
proof -
  have "Num 0 < lengthSq (moveDir_of (keys diagonal_state) (forward_of (camera diagonal_state))
      (right_of (camera diagonal_state)))"
    by (simp only: moveDir_diagonal lengthSq_diagonal)
  from camera_step [OF this, of delta] show ?thesis
    by (simp only: moveDir_diagonal normalize_diagonal)
       (simp add: diagonal_state_def initial_state_def)
qed

lemma offset_before:
  "sub (Vector3 (Num 0) (Num 1) (Num 0)) (Vector3 (Num 5) (Num 5) (Num 10))
     = Vector3 (Num (- 5)) (Num (- 4)) (Num (- 10))"
  by (simp add: eval_vector eval_number)

lemma offset_after:
  "sub (Vector3 (Finite False 7961314590657215 (- 50)) (Num 1) (Finite True 7961314590657215 (- 50)))
       (Vector3 (Finite False 6795407062435168 (- 49)) (Num 5) (Finite False 6595368955538050 (- 51)))
     = Vector3 (Finite True 5629499534213121 (- 50)) (Num (- 4)) (Num (- 10))"
  by (simp add: eval_vector eval_number)

lemma direction_before:
  "normalize_v (Vector3 (Num (- 5)) (Num (- 4)) (Num (- 10)))
     = Vector3 (Finite True 7585430155809045 (- 54)) (Finite True 6068344124647236 (- 54))
               (Finite True 7585430155809045 (- 53))"
  by (simp add: eval_vector eval_number)

lemma direction_after:
  "normalize_v (Vector3 (Finite True 5629499534213121 (- 50)) (Num (- 4)) (Num (- 10)))
     = Vector3 (Finite True 7585430155809046 (- 54)) (Finite True 6068344124647236 (- 54))
               (Finite True 7585430155809045 (- 53))"
  by (simp add: eval_vector eval_number)

lemma forward_state_facts:
  "matrixWorld_z (camera forward_state) = facing_minus_z"
  "KeyW (keys forward_state)" "\<not> KeyS (keys forward_state)"
  "\<not> KeyA (keys forward_state)" "\<not> KeyD (keys forward_state)"
  "position (camera forward_state) = Vector3 (Num 5) (Num 5) (Num 10)"
  "controls_target forward_state = Vector3 (Num 0) (Num 1) (Num 0)"
  by (simp_all add: forward_state_def initial_state_def no_keys_def)







subsection \<open>Light steps\<close>

lemma move_light_axes:
  "move_light ks t p =
     Vector3
       (if ArrowRight ks then (if ArrowLeft ks then vx p - t else vx p) + t
        else (if ArrowLeft ks then vx p - t else vx p))
       (if PageDown ks then (if PageUp ks then vy p + t else vy p) - t
        else (if PageUp ks then vy p + t else vy p))
       (if ArrowDown ks then (if ArrowUp ks then vz p - t else vz p) + t
        else (if ArrowUp ks then vz p - t else vz p))"
  by (simp add: move_light_def Let_def)

lemma move_light_axes_back:
  "move_light ks (Num 4 * (- d)) p =
     Vector3
       (if ArrowRight ks then (if ArrowLeft ks then vx p + Num 4 * d else vx p) - Num 4 * d
        else (if ArrowLeft ks then vx p + Num 4 * d else vx p))
       (if PageDown ks then (if PageUp ks then vy p - Num 4 * d else vy p) + Num 4 * d
        else (if PageUp ks then vy p - Num 4 * d else vy p))
       (if ArrowDown ks then (if ArrowUp ks then vz p + Num 4 * d else vz p) - Num 4 * d
        else (if ArrowUp ks then vz p + Num 4 * d else vz p))"
  by (simp add: move_light_axes times_uminus minus_uminus plus_uminus)

lemma move_light_NaN:
  "(ArrowLeft ks \<or> ArrowRight ks \<longrightarrow> vx (move_light ks (Num 4 * NaN) p) = NaN)
   \<and> (PageUp ks \<or> PageDown ks \<longrightarrow> vy (move_light ks (Num 4 * NaN) p) = NaN)
   \<and> (ArrowUp ks \<or> ArrowDown ks \<longrightarrow> vz (move_light ks (Num 4 * NaN) p) = NaN)"
  by (simp add: move_light_axes)

lemma move_light_no_key:
  assumes "\<not> ArrowUp ks" "\<not> ArrowDown ks" "\<not> ArrowLeft ks" "\<not> ArrowRight ks" "\<not> PageUp ks" "\<not> PageDown ks"
  shows "move_light ks s p = p"
  using assms by (simp add: move_light_axes)

lemma light_step_position:
  assumes "rig_ok st" "params_activeLight st = int k" "k < length (lights st)"
  shows "\<exists>st'. updateLightMovement delta st = Inr st'
     \<and> position (lights st' ! k) = move_light (keys st) (Num 4 * delta) (position (lights st ! k))
     \<and> (\<forall>i. i \<noteq> k \<longrightarrow> lights st' ! i = lights st ! i)
     \<and> length (lights st') = length (lights st)
     \<and> synced st'"
  using light_step [OF assms, of delta] assms(3) by auto

lemma four_times_one: "Num 4 * Num 1 = Num 4"
  by (simp add: eval_number)

lemma light2_state_facts:
  "rig_ok light2_state" "params_activeLight light2_state = int 2" "2 < length (lights light2_state)"
  "ArrowRight (keys light2_state)" "\<not> ArrowLeft (keys light2_state)" "\<not> ArrowUp (keys light2_state)"
  "\<not> ArrowDown (keys light2_state)" "\<not> PageUp (keys light2_state)" "\<not> PageDown (keys light2_state)"
  "lights light2_state = map new_light initialPositions"
  by (simp_all add: light2_state_def rig_ok_def initial_state_def initialPositions_def no_keys_def)

lemmas eval_light = updateLightMovement_def Let_def index_def move_light_def sync_from.simps
  sync_body_def helper_update_def copy_def

lemma reversed_frame_state_facts:
  "rig_ok reversed_frame_state" "params_activeLight reversed_frame_state = int 0"
  "0 < length (lights reversed_frame_state)"
  "matrixWorld_z (camera reversed_frame_state) = facing_minus_z"
  "KeyW (keys reversed_frame_state)" "\<not> KeyS (keys reversed_frame_state)"
  "\<not> KeyA (keys reversed_frame_state)" "\<not> KeyD (keys reversed_frame_state)"
  "ArrowRight (keys reversed_frame_state)" "\<not> ArrowLeft (keys reversed_frame_state)"
  "\<not> ArrowUp (keys reversed_frame_state)" "\<not> ArrowDown (keys reversed_frame_state)"
  "\<not> PageUp (keys reversed_frame_state)" "\<not> PageDown (keys reversed_frame_state)"
  "position (camera reversed_frame_state) = Vector3 (Num 5) (Num 5) (Num 10)"
  "controls_target reversed_frame_state = Vector3 (Num 0) (Num 1) (Num 0)"
  "position (lights reversed_frame_state ! 0) = Vector3 (Num 0) (Num 3) (Num 0)"
  by (simp_all add: reversed_frame_state_def rig_ok_def initial_state_def initialPositions_def
      no_keys_def new_light_def)

lemma reversed_camera_step:
  "updateCameraMovement (Num (- 1)) reversed_frame_state =
     reversed_frame_state
       \<lparr>camera := (camera reversed_frame_state)\<lparr>position := Vector3 (Num 5) (Num 5) (Num 15)\<rparr>,
        controls_target := Vector3 (Num 0) (Num 1) (Num 5)\<rparr>"
  unfolding forward_only_step [OF reversed_frame_state_facts(4-8)] reversed_frame_state_facts(15,16)
  by (simp add: eval_vector eval_number)

lemma NaN_camera_step:
  "updateCameraMovement NaN reversed_frame_state =
     reversed_frame_state
       \<lparr>camera := (camera reversed_frame_state)\<lparr>position := Vector3 NaN NaN NaN\<rparr>,
        controls_target := Vector3 NaN NaN NaN\<rparr>"
  unfolding forward_only_step [OF reversed_frame_state_facts(4-8)]
  by (simp add: eval_vector)

lemma getWorldDirection_down:
  "getWorldDirection (camera looking_down_state) zero_v = Vector3 (- Num 0) (Num (- 1)) (- Num 0)"
  by (simp add: looking_down_state_def initial_state_def getWorldDirection_def eval_vector eval_number)

lemma looking_down_facts:
  "isZero (vx (getWorldDirection (camera (looking_down_state\<lparr>keys := ks\<rparr>)) zero_v))"
  "isZero (vz (getWorldDirection (camera (looking_down_state\<lparr>keys := ks\<rparr>)) zero_v))"
  "isFinite_v (up (camera (looking_down_state\<lparr>keys := ks\<rparr>)))"
proof -
  have "camera (looking_down_state\<lparr>keys := ks\<rparr>) = camera looking_down_state" by simp
  then show "isZero (vx (getWorldDirection (camera (looking_down_state\<lparr>keys := ks\<rparr>)) zero_v))"
    "isZero (vz (getWorldDirection (camera (looking_down_state\<lparr>keys := ks\<rparr>)) zero_v))"
    by (simp_all only: getWorldDirection_down Vector3.sel isZero_uminus isZero_Num_0)
  show "isFinite_v (up (camera (looking_down_state\<lparr>keys := ks\<rparr>)))"
    by (simp add: looking_down_state_def initial_state_def isFinite_v_def Num_def round_fin_def
        round_at_def pack_def bitlen_1)
qed

section \<open>The claims\<close>

subsection \<open>C1\<close>

text \<open>
  C1. From any state of the rig the loop of lines 218 to 221 returns; it leaves the lights
  as they are, every marker sphere then has exactly its light's position, and a second
  run of the loop returns the same state. So it is after every call of
  \<open>updateLightMovement\<close> that reaches the loop.
\<close>

theorem sync_exact_and_idempotent:
  assumes "rig_ok st"
  shows "(\<exists>st'. sync_from 0 st = Inr st' \<and> lights st' = lights st
            \<and> (\<forall>i < length (lights st'). position (lightSpheres st' ! i) = position (lights st' ! i))
            \<and> sync_from 0 st' = Inr st')
       \<and> (0 \<le> params_activeLight st \<and> params_activeLight st < int (length (lights st)) \<longrightarrow>
           (\<exists>st'. updateLightMovement delta st = Inr st'
            \<and> length (lights st') = length (lights st)
            \<and> (\<forall>i < length (lights st'). position (lightSpheres st' ! i) = position (lights st' ! i))
            \<and> sync_from 0 st' = Inr st'))"
proof (intro conjI impI)
  from sync_loop[OF assms] obtain st' where r: "sync_from 0 st = Inr st'" "lights st' = lights st"
    "rig_ok st'" "synced st'" by blast
  then show "\<exists>st'. sync_from 0 st = Inr st' \<and> lights st' = lights st
            \<and> (\<forall>i < length (lights st'). position (lightSpheres st' ! i) = position (lights st' ! i))
            \<and> sync_from 0 st' = Inr st'"
    by (auto simp: sync_from_id synced_def)
next
  assume a: "0 \<le> params_activeLight st \<and> params_activeLight st < int (length (lights st))"
  then have "params_activeLight st = int (nat (params_activeLight st))" "nat (params_activeLight st) < length (lights st)"
    by (simp_all add: nat_less_iff)
  from light_step[OF assms this, of delta] obtain st' where r: "updateLightMovement delta st = Inr st'"
    "rig_ok st'" "synced st'" "length (lights st') = length (lights st)" by auto
  then show "\<exists>st'. updateLightMovement delta st = Inr st'
            \<and> length (lights st') = length (lights st)
            \<and> (\<forall>i < length (lights st'). position (lightSpheres st' ! i) = position (lights st' ! i))
            \<and> sync_from 0 st' = Inr st'"
    by (auto simp: sync_from_id synced_def)
qed

theorem sync_exact_and_idempotent_witness:
  "rig_ok panel_moved_state \<and>
   (\<exists>st'. updateLightMovement (Num 1) panel_moved_state = Inr st'
      \<and> position (lightSpheres st' ! 0) = position (lights st' ! 0)
      \<and> position (lightSpheres st' ! 1) = position (lights st' ! 1)
      \<and> position (lightSpheres st' ! 2) = position (lights st' ! 2)
      \<and> position (lightSpheres st' ! 3) = position (lights st' ! 3)
      \<and> position (lightSpheres st' ! 4) = position (lights st' ! 4)
      \<and> sync_from 0 st' = Inr st')"
  using sync_exact_and_idempotent [OF rig_ok_panel, of "Num 1"]
  by (auto simp: rig_ok_panel len_panel act_panel)

subsection \<open>C2\<close>




subsection \<open>C3\<close>

text \<open>
  C3 fails as stated. With the forward key and the increase-X key held, a frame with
  delta \<open>-1\<close> moves the camera from \<open>(5, 5, 10)\<close> to \<open>(5, 5, 15)\<close>, the target from
  \<open>(0, 1, 0)\<close> to \<open>(0, 1, 5)\<close> and light 0 from \<open>(0, 3, 0)\<close> to \<open>(-4, 3, 0)\<close>; a frame with
  delta \<open>NaN\<close> writes \<open>NaN\<close> into every component of the camera position and of the
  target and into the X of light 0.
\<close>

theorem negative_delta_counterexample:
  "animate (Num (- 1)) reversed_frame_state =
     Inr (reversed_frame_state
           \<lparr>camera := (camera reversed_frame_state)\<lparr>position := Vector3 (Num 5) (Num 5) (Num 15)\<rparr>,
            controls_target := Vector3 (Num 0) (Num 1) (Num 5),
            lights := (lights reversed_frame_state)[0 := new_light (Vector3 (Num (- 4)) (Num 3) (Num 0))],
            lightSpheres := (lightSpheres reversed_frame_state)[0 := new_sphere (Vector3 (Num (- 4)) (Num 3) (Num 0))]\<rparr>)
   \<and> animate NaN reversed_frame_state =
     Inr (reversed_frame_state
           \<lparr>camera := (camera reversed_frame_state)\<lparr>position := Vector3 NaN NaN NaN\<rparr>,
            controls_target := Vector3 NaN NaN NaN,
            lights := (lights reversed_frame_state)[0 := new_light (Vector3 NaN (Num 3) (Num 0))],
            lightSpheres := (lightSpheres reversed_frame_state)[0 := new_sphere (Vector3 NaN (Num 3) (Num 0))]\<rparr>)"
  unfolding animate_def reversed_camera_step NaN_camera_step
  by (simp add: eval_light reversed_frame_state_def initial_state_def initialPositions_def
      no_keys_def new_light_def new_sphere_def new_helper_def eval_number)

text \<open>
  C3, as the code has it, for a rig with the active index in range: neither navigator
  clamps or checks the delta. A call of \<open>updateLightMovement\<close> with \<open>-d\<close> moves the active
  light as a call with \<open>d\<close> does with every addition of \<open>4 * d\<close> turned into a subtraction
  and every subtraction into an addition. When the squared length of the move direction
  is greater than 0, \<open>updateCameraMovement\<close> with \<open>d\<close> adds the normalised direction times
  \<open>5 * d\<close> to the camera position, and with \<open>-d\<close> it subtracts that same vector from the
  camera position and from the target; with the delta \<open>NaN\<close> the camera position and the
  target become \<open>(NaN, NaN, NaN)\<close>. With the delta \<open>NaN\<close> every coordinate of the active
  light that has a held key becomes \<open>NaN\<close>. For every delta the lights are unchanged when
  no light key is held, and the state is unchanged by the camera step when the movement
  keys cancel.
\<close>

theorem delta_used_unclamped:
  assumes "rig_ok st" "params_activeLight st = int k" "k < length (lights st)"
  shows "(\<exists>st'. updateLightMovement (- d) st = Inr st'
            \<and> position (lights st' ! k) =
                Vector3
                  (if ArrowRight (keys st)
                   then (if ArrowLeft (keys st) then vx (position (lights st ! k)) + Num 4 * d
                         else vx (position (lights st ! k))) - Num 4 * d
                   else (if ArrowLeft (keys st) then vx (position (lights st ! k)) + Num 4 * d
                         else vx (position (lights st ! k))))
                  (if PageDown (keys st)
                   then (if PageUp (keys st) then vy (position (lights st ! k)) - Num 4 * d
                         else vy (position (lights st ! k))) + Num 4 * d
                   else (if PageUp (keys st) then vy (position (lights st ! k)) - Num 4 * d
                         else vy (position (lights st ! k))))
                  (if ArrowDown (keys st)
                   then (if ArrowUp (keys st) then vz (position (lights st ! k)) + Num 4 * d
                         else vz (position (lights st ! k))) - Num 4 * d
                   else (if ArrowUp (keys st) then vz (position (lights st ! k)) + Num 4 * d
                         else vz (position (lights st ! k)))))
       \<and> (Num 0 < lengthSq (moveDir_of (keys st) (forward_of (camera st)) (right_of (camera st))) \<longrightarrow>
            position (camera (updateCameraMovement d st)) =
              add (position (camera st))
                (multiplyScalar
                   (normalize_v (moveDir_of (keys st) (forward_of (camera st)) (right_of (camera st))))
                   (Num 5 * d))
            \<and> position (camera (updateCameraMovement (- d) st)) =
              sub (position (camera st))
                (multiplyScalar
                   (normalize_v (moveDir_of (keys st) (forward_of (camera st)) (right_of (camera st))))
                   (Num 5 * d))
            \<and> controls_target (updateCameraMovement (- d) st) =
              sub (controls_target st)
                (multiplyScalar
                   (normalize_v (moveDir_of (keys st) (forward_of (camera st)) (right_of (camera st))))
                   (Num 5 * d))
            \<and> position (camera (updateCameraMovement NaN st)) = Vector3 NaN NaN NaN
            \<and> controls_target (updateCameraMovement NaN st) = Vector3 NaN NaN NaN)
       \<and> (\<exists>st'. updateLightMovement NaN st = Inr st'
            \<and> (ArrowLeft (keys st) \<or> ArrowRight (keys st) \<longrightarrow> vx (position (lights st' ! k)) = NaN)
            \<and> (PageUp (keys st) \<or> PageDown (keys st) \<longrightarrow> vy (position (lights st' ! k)) = NaN)
            \<and> (ArrowUp (keys st) \<or> ArrowDown (keys st) \<longrightarrow> vz (position (lights st' ! k)) = NaN))
       \<and> (\<not> ArrowUp (keys st) \<and> \<not> ArrowDown (keys st) \<and> \<not> ArrowLeft (keys st)
          \<and> \<not> ArrowRight (keys st) \<and> \<not> PageUp (keys st) \<and> \<not> PageDown (keys st) \<longrightarrow>
            (\<exists>st'. updateLightMovement delta st = Inr st' \<and> lights st' = lights st))
       \<and> (KeyW (keys st) = KeyS (keys st) \<and> KeyA (keys st) = KeyD (keys st) \<longrightarrow>
            updateCameraMovement delta st = st)"
proof -
  have A: "\<exists>st'. updateLightMovement (- d) st = Inr st'
            \<and> position (lights st' ! k) =
                Vector3
                  (if ArrowRight (keys st)
                   then (if ArrowLeft (keys st) then vx (position (lights st ! k)) + Num 4 * d
                         else vx (position (lights st ! k))) - Num 4 * d
                   else (if ArrowLeft (keys st) then vx (position (lights st ! k)) + Num 4 * d
                         else vx (position (lights st ! k))))
                  (if PageDown (keys st)
                   then (if PageUp (keys st) then vy (position (lights st ! k)) - Num 4 * d
                         else vy (position (lights st ! k))) + Num 4 * d
                   else (if PageUp (keys st) then vy (position (lights st ! k)) - Num 4 * d
                         else vy (position (lights st ! k))))
                  (if ArrowDown (keys st)
                   then (if ArrowUp (keys st) then vz (position (lights st ! k)) + Num 4 * d
                         else vz (position (lights st ! k))) - Num 4 * d
                   else (if ArrowUp (keys st) then vz (position (lights st ! k)) + Num 4 * d
                         else vz (position (lights st ! k))))"
    using light_step_position [OF assms, of "- d"] unfolding move_light_axes_back by blast
  have B: "position (camera (updateCameraMovement d st)) =
              add (position (camera st))
                (multiplyScalar
                   (normalize_v (moveDir_of (keys st) (forward_of (camera st)) (right_of (camera st))))
                   (Num 5 * d))
            \<and> position (camera (updateCameraMovement (- d) st)) =
              sub (position (camera st))
                (multiplyScalar
                   (normalize_v (moveDir_of (keys st) (forward_of (camera st)) (right_of (camera st))))
                   (Num 5 * d))
            \<and> controls_target (updateCameraMovement (- d) st) =
              sub (controls_target st)
                (multiplyScalar
                   (normalize_v (moveDir_of (keys st) (forward_of (camera st)) (right_of (camera st))))
                   (Num 5 * d))
            \<and> position (camera (updateCameraMovement NaN st)) = Vector3 NaN NaN NaN
            \<and> controls_target (updateCameraMovement NaN st) = Vector3 NaN NaN NaN"
    if "Num 0 < lengthSq (moveDir_of (keys st) (forward_of (camera st)) (right_of (camera st)))"
    by (simp add: camera_step [OF that, of d] camera_step_back [OF that, of d]
        camera_step_NaN [OF that])
  have C: "\<exists>st'. updateLightMovement NaN st = Inr st'
            \<and> (ArrowLeft (keys st) \<or> ArrowRight (keys st) \<longrightarrow> vx (position (lights st' ! k)) = NaN)
            \<and> (PageUp (keys st) \<or> PageDown (keys st) \<longrightarrow> vy (position (lights st' ! k)) = NaN)
            \<and> (ArrowUp (keys st) \<or> ArrowDown (keys st) \<longrightarrow> vz (position (lights st' ! k)) = NaN)"
    using light_step_position [OF assms, of NaN]
      move_light_NaN [of "keys st" "position (lights st ! k)"]
    by auto
  have E: "\<exists>st'. updateLightMovement delta st = Inr st' \<and> lights st' = lights st"
    if "\<not> ArrowUp (keys st) \<and> \<not> ArrowDown (keys st) \<and> \<not> ArrowLeft (keys st)
          \<and> \<not> ArrowRight (keys st) \<and> \<not> PageUp (keys st) \<and> \<not> PageDown (keys st)"
    using light_step [OF assms, of delta] that by (auto simp: move_light_no_key)
  have F: "updateCameraMovement delta st = st"
    if "KeyW (keys st) = KeyS (keys st) \<and> KeyA (keys st) = KeyD (keys st)"
    using that by (simp add: keys_cancel_no_step)
  from A B C E F show ?thesis by blast
qed

theorem delta_used_unclamped_witness:
  "rig_ok reversed_frame_state
   \<and> (\<exists>st'. updateLightMovement (- Num 1) reversed_frame_state = Inr st'
         \<and> position (lights st' ! 0) = Vector3 (Num (- 4)) (Num 3) (Num 0))
   \<and> position (camera (updateCameraMovement (- Num 1) reversed_frame_state))
       = Vector3 (Num 5) (Num 5) (Num 15)
   \<and> position (camera (updateCameraMovement (Num 1) reversed_frame_state))
       = Vector3 (Num 5) (Num 5) (Num 5)
   \<and> (\<exists>st'. updateLightMovement NaN reversed_frame_state = Inr st'
         \<and> vx (position (lights st' ! 0)) = NaN)
   \<and> position (camera (updateCameraMovement NaN reversed_frame_state)) = Vector3 NaN NaN NaN
   \<and> (\<exists>st'. updateLightMovement NaN (initial_state facing_minus_z) = Inr st'
         \<and> lights st' = lights (initial_state facing_minus_z))
   \<and> updateCameraMovement NaN (initial_state facing_minus_z) = initial_state facing_minus_z"
proof -
  let ?s0 = "initial_state facing_minus_z"
  have r0: "rig_ok ?s0" "params_activeLight ?s0 = int 0" "0 < length (lights ?s0)"
    by (simp_all add: rig_ok_def initial_state_def initialPositions_def)
  have k0: "keys ?s0 = no_keys" by (simp add: initial_state_def)
  from delta_used_unclamped [OF r0, of "Num 1" NaN]
  have z: "(\<exists>st'. updateLightMovement NaN ?s0 = Inr st' \<and> lights st' = lights ?s0)
      \<and> updateCameraMovement NaN ?s0 = ?s0"
    by (simp add: k0 no_keys_def)
  have m: "moveDir_of (keys reversed_frame_state) (forward_of (camera reversed_frame_state))
      (right_of (camera reversed_frame_state)) = Vector3 (Num 0) (Num 0) (Num (- 1))"
    by (rule moveDir_forward_only [OF reversed_frame_state_facts(4-8)])
  have e: "Num 0 - Num 4 * Num 1 = Num (- 4)"
    "sub (Vector3 (Num 5) (Num 5) (Num 10))
       (multiplyScalar (Vector3 (Num 0) (Num 0) (Num (- 1))) (Num 5 * Num 1)) = Vector3 (Num 5) (Num 5) (Num 15)"
    "add (Vector3 (Num 5) (Num 5) (Num 10))
       (multiplyScalar (Vector3 (Num 0) (Num 0) (Num (- 1))) (Num 5 * Num 1)) = Vector3 (Num 5) (Num 5) (Num 5)"
    by (simp_all add: eval_vector eval_number)
  show ?thesis
    using delta_used_unclamped [OF reversed_frame_state_facts(1-3), of "Num 1" NaN] z
    by (simp add: reversed_frame_state_facts m lengthSq_minus_z normalize_minus_z e)
qed

subsection \<open>C4\<close>

text \<open>
  C4 fails as stated. With the camera looking straight down and the forward key held,
  the move direction is the zero vector and a call with delta 1 returns the state it was
  given: no fallback direction is used, and the held key moves nothing.
\<close>

theorem no_fallback_direction_counterexample:
  "KeyW (keys looking_down_state)
   \<and> moveDir_of (keys looking_down_state) (forward_of (camera looking_down_state))
        (right_of (camera looking_down_state)) = zero_v
   \<and> updateCameraMovement (Num 1) looking_down_state = looking_down_state"
proof -
  have g: "isZero (vx (getWorldDirection (camera looking_down_state) zero_v))"
    "isZero (vz (getWorldDirection (camera looking_down_state) zero_v))"
    "isFinite_v (up (camera looking_down_state))"
    using looking_down_facts [of "keys looking_down_state"] by simp_all
  have f: "isZero_v (forward_of (camera looking_down_state))"
    using g(1,2) by (rule forward_degenerate)
  have r: "isZero_v (right_of (camera looking_down_state))"
    using f g(3) by (rule right_degenerate)
  have "updateCameraMovement (Num 1) looking_down_state = looking_down_state"
    using g(1,2) by (rule degenerate_no_step)
  moreover have "KeyW (keys looking_down_state)"
    by (simp add: looking_down_state_def initial_state_def)
  ultimately show ?thesis using moveDir_zero [OF f r] by simp
qed

text \<open>
  C4, as the code has it. When the camera's forward direction has a zero horizontal
  projection (X and Z are zeros of either sign), \<open>updateCameraMovement\<close> returns the state
  it was given, for every set of held keys and every delta; and with an up vector of
  finite components the move direction is the zero vector for every set of held keys.
\<close>

theorem degenerate_forward_has_no_fallback:
  assumes "isZero (vx (getWorldDirection (camera st) zero_v))"
    and "isZero (vz (getWorldDirection (camera st) zero_v))"
  shows "updateCameraMovement delta (st\<lparr>keys := ks\<rparr>) = st\<lparr>keys := ks\<rparr>
       \<and> (isFinite_v (up (camera st)) \<longrightarrow>
            moveDir_of ks (forward_of (camera st)) (right_of (camera st)) = zero_v)"
proof -
  have "updateCameraMovement delta (st\<lparr>keys := ks\<rparr>) = st\<lparr>keys := ks\<rparr>"
    by (rule degenerate_no_step) (simp_all add: assms)
  moreover have "moveDir_of ks (forward_of (camera st)) (right_of (camera st)) = zero_v"
    if "isFinite_v (up (camera st))"
    by (rule moveDir_zero [OF forward_degenerate [OF assms]
          right_degenerate [OF forward_degenerate [OF assms] that]])
  ultimately show ?thesis by simp
qed

theorem degenerate_forward_has_no_fallback_witness:
  "isZero (vx (getWorldDirection (camera looking_down_state) zero_v))
   \<and> isZero (vz (getWorldDirection (camera looking_down_state) zero_v))
   \<and> isFinite_v (up (camera looking_down_state))
   \<and> updateCameraMovement (Num 1) (looking_down_state\<lparr>keys := all_keys\<rparr>)
       = looking_down_state\<lparr>keys := all_keys\<rparr>
   \<and> moveDir_of all_keys (forward_of (camera looking_down_state)) (right_of (camera looking_down_state))
       = zero_v"
proof -
  have g: "isZero (vx (getWorldDirection (camera looking_down_state) zero_v))"
    "isZero (vz (getWorldDirection (camera looking_down_state) zero_v))"
    "isFinite_v (up (camera looking_down_state))"
    using looking_down_facts [of "keys looking_down_state"] by simp_all
  from degenerate_forward_has_no_fallback [OF g(1,2), of "Num 1" all_keys] g
  show ?thesis by (simp only: simp_thms)
qed

subsection \<open>C5\<close>

text \<open>
  C5. With the active-light index outside the rig, \<open>updateLightMovement\<close> returns
  normally and the lights are what they were: no position, intensity, distance or colour
  has changed, whatever the keys and the delta.
\<close>

theorem out_of_range_no_light_mutation:
  assumes "params_activeLight st < 0 \<or> int (length (lights st)) \<le> params_activeLight st"
  shows "\<exists>st'. updateLightMovement delta st = Inr st' \<and> lights st' = lights st"
  using assms by (simp add: updateLightMovement_def index_None)

theorem out_of_range_no_light_mutation_witness:
  "(\<exists>st'. updateLightMovement (Num 1)
           ((initial_state facing_minus_z)\<lparr>keys := all_keys, params_activeLight := - 1\<rparr>) = Inr st'
        \<and> lights st' = map new_light initialPositions)
   \<and> (\<exists>st'. updateLightMovement (Num 1)
           ((initial_state facing_minus_z)\<lparr>keys := all_keys, params_activeLight := 5\<rparr>) = Inr st'
        \<and> lights st' = map new_light initialPositions)"
  using out_of_range_no_light_mutation
          [of "(initial_state facing_minus_z)\<lparr>keys := all_keys, params_activeLight := - 1\<rparr>" "Num 1"]
        out_of_range_no_light_mutation
          [of "(initial_state facing_minus_z)\<lparr>keys := all_keys, params_activeLight := 5\<rparr>" "Num 1"]
  by (simp add: initial_state_def initialPositions_def)

subsection \<open>C6\<close>

text \<open>
  C6. With the active-light index in range, \<open>updateLightMovement\<close> returns, and the
  intensity, distance and colour of every light are what they were; every light but the
  selected one is wholly unchanged.
\<close>

theorem only_selected_position_changes:
  assumes "rig_ok st" "0 \<le> params_activeLight st" "params_activeLight st < int (length (lights st))"
  shows "\<exists>st'. updateLightMovement delta st = Inr st' \<and> length (lights st') = length (lights st)
     \<and> (\<forall>i < length (lights st).
          intensity (lights st' ! i) = intensity (lights st ! i)
        \<and> distance (lights st' ! i) = distance (lights st ! i)
        \<and> color (lights st' ! i) = color (lights st ! i)
        \<and> (int i \<noteq> params_activeLight st \<longrightarrow> lights st' ! i = lights st ! i))"
proof -
  from assms have "params_activeLight st = int (nat (params_activeLight st))" "nat (params_activeLight st) < length (lights st)"
    by (simp_all add: nat_less_iff)
  from light_step[OF assms(1) this, of delta] obtain st' where r: "updateLightMovement delta st = Inr st'"
    "lights st' = (lights st)[nat (params_activeLight st) := (lights st ! nat (params_activeLight st))\<lparr>position :=
            move_light (keys st) (Num 4 * delta) (position (lights st ! nat (params_activeLight st)))\<rparr>]" by blast
  have "intensity (lights st' ! i) = intensity (lights st ! i)
        \<and> distance (lights st' ! i) = distance (lights st ! i)
        \<and> color (lights st' ! i) = color (lights st ! i)
        \<and> (int i \<noteq> params_activeLight st \<longrightarrow> lights st' ! i = lights st ! i)" if "i < length (lights st)" for i
    using that r(2) assms(2) by (cases "i = nat (params_activeLight st)") auto
  with r show ?thesis by simp
qed

theorem only_selected_position_changes_witness:
  "rig_ok panel_moved_state \<and>
   (\<exists>st'. updateLightMovement (Num 1) panel_moved_state = Inr st'
      \<and> intensity (lights st' ! 0) = Num 5 / Num 2 \<and> distance (lights st' ! 0) = Num 40
      \<and> color (lights st' ! 0) = 0xffffff
      \<and> lights st' ! 1 = new_light (Vector3 (Num 7) (Num 2) (Num 0))
      \<and> lights st' ! 4 = new_light (Vector3 (Num 0) (Num 2) (Num (- 3))))"
proof -
  from only_selected_position_changes [OF rig_ok_panel, of "Num 1"]
  obtain st' where r: "updateLightMovement (Num 1) panel_moved_state = Inr st'"
    and a: "\<forall>i < 5. intensity (lights st' ! i) = intensity (lights panel_moved_state ! i)
        \<and> distance (lights st' ! i) = distance (lights panel_moved_state ! i)
        \<and> color (lights st' ! i) = color (lights panel_moved_state ! i)
        \<and> (int i \<noteq> 0 \<longrightarrow> lights st' ! i = lights panel_moved_state ! i)"
    by (auto simp: len_panel act_panel)
  from a have "intensity (lights st' ! 0) = Num 5 / Num 2" "distance (lights st' ! 0) = Num 40"
    "color (lights st' ! 0) = 0xffffff"
    by (simp_all add: lights_panel new_light_def)
  moreover from a have "lights st' ! 1 = new_light (Vector3 (Num 7) (Num 2) (Num 0))"
    "lights st' ! 4 = new_light (Vector3 (Num 0) (Num 2) (Num (- 3)))"
    by (simp_all add: lights_panel)
  ultimately show ?thesis using r rig_ok_panel by simp
qed

subsection \<open>C7\<close>

text \<open>
  C7 fails as stated, by the rounding of the arithmetic. Light 2 is selected and only the
  increase-X key is held, over three frames of \<open>2\<^sup>-\<^sup>5\<^sup>4\<close>, \<open>2\<^sup>-\<^sup>5\<^sup>4\<close> and \<open>1 - 2\<^sup>-\<^sup>5\<^sup>3\<close> seconds. The
  frames add up to one second, over the reals and as doubles. Light 2 starts at X = -3
  and ends at X = \<open>9007199254740988 * 2\<^sup>-\<^sup>5\<^sup>3\<close> = 0.9999999999999996, which is less than
  \<open>-3 + 4\<close>: its X has grown by less than 4, in doubles and over the reals.
\<close>

theorem rounded_frames_counterexample:
  "val (Finite False 4503599627370496 (- 106)) + val (Finite False 4503599627370496 (- 106))
     + val (Finite False 9007199254740991 (- 53)) = 1
   \<and> total_time [Finite False 4503599627370496 (- 106), Finite False 4503599627370496 (- 106),
                  Finite False 9007199254740991 (- 53)] = Num 1
   \<and> run_light [Finite False 4503599627370496 (- 106), Finite False 4503599627370496 (- 106),
                 Finite False 9007199254740991 (- 53)] light2_state =
       Inr (light2_state
             \<lparr>lights := (lights light2_state)
                 [2 := new_light (Vector3 (Finite False 9007199254740988 (- 53)) (Num 2) (Num 0))],
              lightSpheres := (lightSpheres light2_state)
                 [2 := new_sphere (Vector3 (Finite False 9007199254740988 (- 53)) (Num 2) (Num 0))]\<rparr>)
   \<and> Finite False 9007199254740988 (- 53) < Num (- 3) + Num 4
   \<and> Finite False 9007199254740988 (- 53) - Num (- 3) < Num 4
   \<and> val (Finite False 9007199254740988 (- 53)) - val (Num (- 3)) < 4"
proof -
  have 5: "Finite False 9007199254740988 (- 53) < Num (- 3) + Num 4"
    "Finite False 9007199254740988 (- 53) - Num (- 3) < Num 4"
    by (simp_all add: eval_number)
  have 1: "val (Finite False 4503599627370496 (- 106)) + val (Finite False 4503599627370496 (- 106))
     + val (Finite False 9007199254740991 (- 53)) = 1"
    by (simp add: signed_def)
  have 2: "total_time [Finite False 4503599627370496 (- 106), Finite False 4503599627370496 (- 106),
                  Finite False 9007199254740991 (- 53)] = Num 1"
    by (simp add: eval_number)
  have 3: "run_light [Finite False 4503599627370496 (- 106), Finite False 4503599627370496 (- 106),
                 Finite False 9007199254740991 (- 53)] light2_state =
       Inr (light2_state
             \<lparr>lights := (lights light2_state)
                 [2 := new_light (Vector3 (Finite False 9007199254740988 (- 53)) (Num 2) (Num 0))],
              lightSpheres := (lightSpheres light2_state)
                 [2 := new_sphere (Vector3 (Finite False 9007199254740988 (- 53)) (Num 2) (Num 0))]\<rparr>)"
    by (simp add: eval_light light2_state_def initial_state_def initialPositions_def no_keys_def
        new_light_def new_sphere_def new_helper_def eval_number)
  have 4: "val (Finite False 9007199254740988 (- 53)) - val (Num (- 3)) < 4"
    by (simp add: eval_number)
  from 1 2 3 4 5 show ?thesis by (simp only: simp_thms)
qed

text \<open>
  C7, as the code has it, for a rig with the active index \<open>k\<close> in range. One call of
  \<open>updateLightMovement\<close> returns; on each axis of the active light the decreasing key, when
  held, subtracts \<open>4 * delta\<close> and the increasing key, when held, then adds \<open>4 * delta\<close> (on
  Y the adding key comes first), every operation a double operation and with no
  normalisation over the axes; every other light is as it was, and afterwards every
  marker sphere has its light's position. With light 2 selected and only the increase-X
  key held, one call with delta 1 leaves the X of light 2 at its old value plus 4, its Y
  and Z and every other light unchanged, and every marker sphere at its light.
\<close>

theorem light_movement_per_axis:
  assumes "rig_ok st" "params_activeLight st = int k" "k < length (lights st)"
  shows "(\<exists>st'. updateLightMovement delta st = Inr st'
            \<and> position (lights st' ! k) =
                Vector3
                  (if ArrowRight (keys st)
                   then (if ArrowLeft (keys st) then vx (position (lights st ! k)) - Num 4 * delta
                         else vx (position (lights st ! k))) + Num 4 * delta
                   else (if ArrowLeft (keys st) then vx (position (lights st ! k)) - Num 4 * delta
                         else vx (position (lights st ! k))))
                  (if PageDown (keys st)
                   then (if PageUp (keys st) then vy (position (lights st ! k)) + Num 4 * delta
                         else vy (position (lights st ! k))) - Num 4 * delta
                   else (if PageUp (keys st) then vy (position (lights st ! k)) + Num 4 * delta
                         else vy (position (lights st ! k))))
                  (if ArrowDown (keys st)
                   then (if ArrowUp (keys st) then vz (position (lights st ! k)) - Num 4 * delta
                         else vz (position (lights st ! k))) + Num 4 * delta
                   else (if ArrowUp (keys st) then vz (position (lights st ! k)) - Num 4 * delta
                         else vz (position (lights st ! k))))
            \<and> (\<forall>i. i \<noteq> k \<longrightarrow> lights st' ! i = lights st ! i)
            \<and> length (lights st') = length (lights st)
            \<and> (\<forall>i < length (lights st'). position (lightSpheres st' ! i) = position (lights st' ! i)))
       \<and> (k = 2 \<and> ArrowRight (keys st) \<and> \<not> ArrowLeft (keys st) \<and> \<not> ArrowUp (keys st)
          \<and> \<not> ArrowDown (keys st) \<and> \<not> PageUp (keys st) \<and> \<not> PageDown (keys st) \<longrightarrow>
            (\<exists>st'. updateLightMovement (Num 1) st = Inr st'
               \<and> position (lights st' ! 2) =
                   Vector3 (vx (position (lights st ! 2)) + Num 4) (vy (position (lights st ! 2)))
                           (vz (position (lights st ! 2)))
               \<and> (\<forall>i. i \<noteq> 2 \<longrightarrow> lights st' ! i = lights st ! i)
               \<and> length (lights st') = length (lights st)
               \<and> (\<forall>i < length (lights st'). position (lightSpheres st' ! i) = position (lights st' ! i))))"
proof (intro conjI impI)
  from light_step_position [OF assms, of delta]
  show "\<exists>st'. updateLightMovement delta st = Inr st'
            \<and> position (lights st' ! k) =
                Vector3
                  (if ArrowRight (keys st)
                   then (if ArrowLeft (keys st) then vx (position (lights st ! k)) - Num 4 * delta
                         else vx (position (lights st ! k))) + Num 4 * delta
                   else (if ArrowLeft (keys st) then vx (position (lights st ! k)) - Num 4 * delta
                         else vx (position (lights st ! k))))
                  (if PageDown (keys st)
                   then (if PageUp (keys st) then vy (position (lights st ! k)) + Num 4 * delta
                         else vy (position (lights st ! k))) - Num 4 * delta
                   else (if PageUp (keys st) then vy (position (lights st ! k)) + Num 4 * delta
                         else vy (position (lights st ! k))))
                  (if ArrowDown (keys st)
                   then (if ArrowUp (keys st) then vz (position (lights st ! k)) - Num 4 * delta
                         else vz (position (lights st ! k))) + Num 4 * delta
                   else (if ArrowUp (keys st) then vz (position (lights st ! k)) - Num 4 * delta
                         else vz (position (lights st ! k))))
            \<and> (\<forall>i. i \<noteq> k \<longrightarrow> lights st' ! i = lights st ! i)
            \<and> length (lights st') = length (lights st)
            \<and> (\<forall>i < length (lights st'). position (lightSpheres st' ! i) = position (lights st' ! i))"
    unfolding move_light_axes by (auto simp: synced_def)
next
  assume h: "k = 2 \<and> ArrowRight (keys st) \<and> \<not> ArrowLeft (keys st) \<and> \<not> ArrowUp (keys st)
          \<and> \<not> ArrowDown (keys st) \<and> \<not> PageUp (keys st) \<and> \<not> PageDown (keys st)"
  from h have m: "move_light (keys st) (Num 4 * Num 1) (position (lights st ! k)) =
      Vector3 (vx (position (lights st ! 2)) + Num 4) (vy (position (lights st ! 2)))
              (vz (position (lights st ! 2)))"
    by (simp add: move_light_axes four_times_one)
  from light_step_position [OF assms, of "Num 1"] h
  show "\<exists>st'. updateLightMovement (Num 1) st = Inr st'
               \<and> position (lights st' ! 2) =
                   Vector3 (vx (position (lights st ! 2)) + Num 4) (vy (position (lights st ! 2)))
                           (vz (position (lights st ! 2)))
               \<and> (\<forall>i. i \<noteq> 2 \<longrightarrow> lights st' ! i = lights st ! i)
               \<and> length (lights st') = length (lights st)
               \<and> (\<forall>i < length (lights st'). position (lightSpheres st' ! i) = position (lights st' ! i))"
    unfolding m by (auto simp: synced_def)
qed

theorem light_movement_per_axis_witness:
  "rig_ok light2_state \<and> params_activeLight light2_state = 2
   \<and> (\<exists>st'. updateLightMovement (Num 1) light2_state = Inr st'
        \<and> position (lights st' ! 2) = Vector3 (Num 1) (Num 2) (Num 0)
        \<and> lights st' ! 0 = new_light (Vector3 (Num 0) (Num 3) (Num 0))
        \<and> lights st' ! 1 = new_light (Vector3 (Num 3) (Num 2) (Num 0))
        \<and> lights st' ! 3 = new_light (Vector3 (Num 0) (Num 2) (Num 3))
        \<and> lights st' ! 4 = new_light (Vector3 (Num 0) (Num 2) (Num (- 3)))
        \<and> position (lightSpheres st' ! 2) = Vector3 (Num 1) (Num 2) (Num 0))"
proof -
  have p: "position (lights light2_state ! 2) = Vector3 (Num (- 3)) (Num 2) (Num 0)"
    by (simp add: light2_state_facts(10) initialPositions_def new_light_def)
  have e: "Num (- 3) + Num 4 = Num 1" by (simp add: eval_number)
  from light_movement_per_axis [OF light2_state_facts(1-3), of "Num 1"] light2_state_facts(4-9)
  obtain st' where r: "updateLightMovement (Num 1) light2_state = Inr st'"
    and a: "position (lights st' ! 2) = Vector3 (Num 1) (Num 2) (Num 0)"
    and o: "\<forall>i. i \<noteq> 2 \<longrightarrow> lights st' ! i = lights light2_state ! i"
    and n: "length (lights st') = length (lights light2_state)"
    and m: "\<forall>i < length (lights st'). position (lightSpheres st' ! i) = position (lights st' ! i)"
    by (auto simp: p e)
  from n m a have "position (lightSpheres st' ! 2) = Vector3 (Num 1) (Num 2) (Num 0)"
    by (simp add: light2_state_facts(10) initialPositions_def)
  moreover from o have "lights st' ! 0 = new_light (Vector3 (Num 0) (Num 3) (Num 0))"
    "lights st' ! 1 = new_light (Vector3 (Num 3) (Num 2) (Num 0))"
    "lights st' ! 3 = new_light (Vector3 (Num 0) (Num 2) (Num 3))"
    "lights st' ! 4 = new_light (Vector3 (Num 0) (Num 2) (Num (- 3)))"
    by (simp_all add: light2_state_facts(10) initialPositions_def)
  ultimately show ?thesis using r a light2_state_facts(1,2) by simp
qed

subsection \<open>C8\<close>

text \<open>
  C8 fails as stated, by the rounding of the arithmetic. From the first pose of the scene,
  the camera facing world \<open>-Z\<close>, with the forward and the right key held, one call with
  delta 2 leaves the camera position and the target as below. The target minus the
  position, in doubles, is \<open>(-5, -4, -10)\<close> before the call and
  \<open>(-5.000000000000001, -4, -10)\<close> after it, and its normalised direction has changed in
  the X component; over the reals the X of the target minus the X of the position is -5
  before and less than -5 after. So the target has not moved by the vector the camera has
  moved by, and the direction from the camera to the target has changed.
\<close>

theorem offset_not_kept_counterexample:
  "updateCameraMovement (Num 2) diagonal_state =
     diagonal_state
       \<lparr>camera := (camera diagonal_state)
            \<lparr>position := Vector3 (Finite False 6795407062435168 (- 49)) (Num 5)
                                  (Finite False 6595368955538050 (- 51))\<rparr>,
        controls_target := Vector3 (Finite False 7961314590657215 (- 50)) (Num 1)
                                   (Finite True 7961314590657215 (- 50))\<rparr>
   \<and> sub (controls_target diagonal_state) (position (camera diagonal_state))
       = Vector3 (Num (- 5)) (Num (- 4)) (Num (- 10))
   \<and> sub (controls_target (updateCameraMovement (Num 2) diagonal_state))
          (position (camera (updateCameraMovement (Num 2) diagonal_state)))
       = Vector3 (Finite True 5629499534213121 (- 50)) (Num (- 4)) (Num (- 10))
   \<and> Finite True 5629499534213121 (- 50) < Num (- 5)
   \<and> normalize_v (sub (controls_target diagonal_state) (position (camera diagonal_state)))
       = Vector3 (Finite True 7585430155809045 (- 54)) (Finite True 6068344124647236 (- 54))
                 (Finite True 7585430155809045 (- 53))
   \<and> normalize_v (sub (controls_target (updateCameraMovement (Num 2) diagonal_state))
                       (position (camera (updateCameraMovement (Num 2) diagonal_state))))
       = Vector3 (Finite True 7585430155809046 (- 54)) (Finite True 6068344124647236 (- 54))
                 (Finite True 7585430155809045 (- 53))
   \<and> val (vx (controls_target diagonal_state)) - val (vx (position (camera diagonal_state))) = - 5
   \<and> val (Finite False 7961314590657215 (- 50)) - val (Finite False 6795407062435168 (- 49)) < - 5"
proof -
  have s: "updateCameraMovement (Num 2) diagonal_state =
     diagonal_state
       \<lparr>camera := (camera diagonal_state)
            \<lparr>position := Vector3 (Finite False 6795407062435168 (- 49)) (Num 5)
                                  (Finite False 6595368955538050 (- 51))\<rparr>,
        controls_target := Vector3 (Finite False 7961314590657215 (- 50)) (Num 1)
                                   (Finite True 7961314590657215 (- 50))\<rparr>"
    unfolding diagonal_step by (simp add: eval_vector eval_number)
  have b: "sub (controls_target diagonal_state) (position (camera diagonal_state))
       = Vector3 (Num (- 5)) (Num (- 4)) (Num (- 10))"
    using offset_before by (simp add: diagonal_state_def initial_state_def)
  have a: "sub (controls_target (updateCameraMovement (Num 2) diagonal_state))
          (position (camera (updateCameraMovement (Num 2) diagonal_state)))
       = Vector3 (Finite True 5629499534213121 (- 50)) (Num (- 4)) (Num (- 10))"
    unfolding s using offset_after by simp
  have l: "Finite True 5629499534213121 (- 50) < Num (- 5)"
    by (simp add: eval_number)
  have v: "val (vx (controls_target diagonal_state)) - val (vx (position (camera diagonal_state))) = - 5"
    by (simp add: diagonal_state_def initial_state_def eval_number)
  have w: "val (Finite False 7961314590657215 (- 50)) - val (Finite False 6795407062435168 (- 49)) < - 5"
    by (simp add: signed_def)
  show ?thesis
    unfolding a b direction_before direction_after
    using s l v w by (simp only: simp_thms)
qed

text \<open>
  C8, as the code has it. A call of \<open>updateCameraMovement\<close> either returns the state it was
  given or adds one and the same vector, in double arithmetic, to the camera position and
  to the target, and changes nothing else; the up vector and the orientation of the
  camera are not written. With the camera facing world \<open>-Z\<close> and the forward key alone, a
  call with delta 2 adds \<open>(0, 0, -10)\<close> to both.
\<close>

theorem camera_and_target_shift_together:
  "(updateCameraMovement delta st = st \<or>
      (\<exists>m. updateCameraMovement delta st =
         st\<lparr>camera := (camera st)\<lparr>position := add (position (camera st)) m\<rparr>,
            controls_target := add (controls_target st) m\<rparr>))
   \<and> up (camera (updateCameraMovement delta st)) = up (camera st)
   \<and> matrixWorld_z (camera (updateCameraMovement delta st)) = matrixWorld_z (camera st)
   \<and> (matrixWorld_z (camera st) = facing_minus_z
        \<and> KeyW (keys st) \<and> \<not> KeyS (keys st) \<and> \<not> KeyA (keys st) \<and> \<not> KeyD (keys st) \<longrightarrow>
        updateCameraMovement (Num 2) st =
          st\<lparr>camera := (camera st)
                 \<lparr>position := add (position (camera st)) (Vector3 (Num 0) (Num 0) (Num (- 10)))\<rparr>,
             controls_target := add (controls_target st) (Vector3 (Num 0) (Num 0) (Num (- 10)))\<rparr>)"
proof (intro conjI impI)
  show "updateCameraMovement delta st = st \<or>
      (\<exists>m. updateCameraMovement delta st =
         st\<lparr>camera := (camera st)\<lparr>position := add (position (camera st)) m\<rparr>,
            controls_target := add (controls_target st) m\<rparr>)"
    by (rule updateCameraMovement_shape)
next
  show "up (camera (updateCameraMovement delta st)) = up (camera st)"
    and "matrixWorld_z (camera (updateCameraMovement delta st)) = matrixWorld_z (camera st)"
    by (simp_all add: updateCameraMovement_def Let_def)
next
  assume "matrixWorld_z (camera st) = facing_minus_z
        \<and> KeyW (keys st) \<and> \<not> KeyS (keys st) \<and> \<not> KeyA (keys st) \<and> \<not> KeyD (keys st)"
  then have "updateCameraMovement (Num 2) st =
     st\<lparr>camera := (camera st)\<lparr>position := add (position (camera st))
              (multiplyScalar (Vector3 (Num 0) (Num 0) (Num (- 1))) (Num 5 * Num 2))\<rparr>,
        controls_target := add (controls_target st)
              (multiplyScalar (Vector3 (Num 0) (Num 0) (Num (- 1))) (Num 5 * Num 2))\<rparr>"
    by (intro forward_only_step) simp_all
  then show "updateCameraMovement (Num 2) st =
          st\<lparr>camera := (camera st)
                 \<lparr>position := add (position (camera st)) (Vector3 (Num 0) (Num 0) (Num (- 10)))\<rparr>,
             controls_target := add (controls_target st) (Vector3 (Num 0) (Num 0) (Num (- 10)))\<rparr>"
    by (simp only: scaled_minus_z_two)
qed

theorem camera_and_target_shift_together_witness:
  "matrixWorld_z (camera forward_state) = facing_minus_z
   \<and> updateCameraMovement (Num 2) forward_state =
       forward_state
         \<lparr>camera := (camera forward_state)\<lparr>position := Vector3 (Num 5) (Num 5) (Num 0)\<rparr>,
          controls_target := Vector3 (Num 0) (Num 1) (Num (- 10))\<rparr>"
proof -
  have s: "add (Vector3 (Num 5) (Num 5) (Num 10)) (Vector3 (Num 0) (Num 0) (Num (- 10)))
      = Vector3 (Num 5) (Num 5) (Num 0)"
    "add (Vector3 (Num 0) (Num 1) (Num 0)) (Vector3 (Num 0) (Num 0) (Num (- 10)))
      = Vector3 (Num 0) (Num 1) (Num (- 10))"
    by (simp_all add: eval_vector eval_number)
  from camera_and_target_shift_together [of "Num 2" forward_state] forward_state_facts(1-5)
  have "updateCameraMovement (Num 2) forward_state =
          forward_state\<lparr>camera := (camera forward_state)
                 \<lparr>position := add (position (camera forward_state)) (Vector3 (Num 0) (Num 0) (Num (- 10)))\<rparr>,
             controls_target := add (controls_target forward_state) (Vector3 (Num 0) (Num 0) (Num (- 10)))\<rparr>"
    by blast
  then show ?thesis by (simp only: forward_state_facts(1,6,7) s simp_thms)
qed

subsection \<open>C9\<close>

text \<open>
  C9. When \<open>lights[params.activeLight]\<close> is undefined, \<open>updateLightMovement\<close> returns the
  state it was given, so the frame copies no position into a marker sphere and updates no
  helper: the spheres and helpers after the frame are those before it, also where a light
  has been moved in the meantime.
\<close>

theorem failed_lookup_skips_sync:
  assumes "index (lights st) (params_activeLight st) = None"
  shows "updateLightMovement delta st = Inr st
       \<and> (\<exists>st'. animate delta st = Inr st' \<and> lights st' = lights st
             \<and> lightSpheres st' = lightSpheres st \<and> lightHelpers st' = lightHelpers st)"
  using assms by (simp add: updateLightMovement_def animate_def updateCameraMovement_frame)

theorem failed_lookup_skips_sync_witness:
  "index (lights (panel_moved_state\<lparr>params_activeLight := 5\<rparr>)) 5 = None \<and>
   (\<exists>st'. animate (Num 1) (panel_moved_state\<lparr>params_activeLight := 5\<rparr>) = Inr st'
      \<and> position (lights st' ! 1) = Vector3 (Num 7) (Num 2) (Num 0)
      \<and> position (lightSpheres st' ! 1) = Vector3 (Num 3) (Num 2) (Num 0))"
  using failed_lookup_skips_sync [of "panel_moved_state\<lparr>params_activeLight := 5\<rparr>" "Num 1"]
  by (auto simp: index_def panel_moved_state_def initial_state_def initialPositions_def new_light_def new_sphere_def)

subsection \<open>C10\<close>

text \<open>
  C10. When the camera's forward direction has a zero horizontal projection (its X and Z
  are zeros, of either sign) and the up vector has finite components, the flattened
  vector is normalised with the divisor 1, every component of the forward and of the right
  vector is a zero, and \<open>updateCameraMovement\<close> returns the state it was given, for every
  delta and every set of held keys.
\<close>

theorem degenerate_forward_leaves_camera_unchanged:
  assumes "isZero (vx (getWorldDirection (camera st) zero_v))"
    and "isZero (vz (getWorldDirection (camera st) zero_v))"
    and "isFinite_v (up (camera st))"
  shows "normalize_divisor
           (Vector3 (vx (getWorldDirection (camera st) zero_v)) (Num 0)
                    (vz (getWorldDirection (camera st) zero_v))) = Num 1
       \<and> isZero_v (forward_of (camera st))
       \<and> isZero_v (right_of (camera st))
       \<and> updateCameraMovement delta st = st"
proof -
  have f: "isZero_v (forward_of (camera st))" using assms(1,2) by (rule forward_degenerate)
  have r: "isZero_v (right_of (camera st))" using f assms(3) by (rule right_degenerate)
  have "normalize_divisor
           (Vector3 (vx (getWorldDirection (camera st) zero_v)) (Num 0)
                    (vz (getWorldDirection (camera st) zero_v))) = Num 1"
    by (rule normalize_divisor_falsy) (simp add: falsy_v_def assms(1,2) isZero_not_truthy)
  moreover have "updateCameraMovement delta st = st"
    using assms(1,2) by (rule degenerate_no_step)
  ultimately show ?thesis using f r by simp
qed

theorem degenerate_forward_leaves_camera_unchanged_witness:
  "isZero (vx (getWorldDirection (camera (looking_down_state\<lparr>keys := all_keys\<rparr>)) zero_v))
   \<and> isZero (vz (getWorldDirection (camera (looking_down_state\<lparr>keys := all_keys\<rparr>)) zero_v))
   \<and> isFinite_v (up (camera (looking_down_state\<lparr>keys := all_keys\<rparr>)))
   \<and> updateCameraMovement (Num 1) (looking_down_state\<lparr>keys := all_keys\<rparr>)
       = looking_down_state\<lparr>keys := all_keys\<rparr>"
  using degenerate_forward_leaves_camera_unchanged [OF looking_down_facts, of all_keys "Num 1"]
    looking_down_facts [of all_keys]
  by (simp only: simp_thms)

end
